theory Spec2Isabelle
  imports Main "HOL-Library.Word"
begin

unbundle bit_operations_syntax

section \<open>Values: tag trees, arrays, errors\<close>

text \<open>
  The module \<^verbatim>\<open>dm3_image_utils.py\<close> converts between the tag tree of a DM3 file (nested
  Python dicts and lists whose leaves are numbers, strings, \<^verbatim>\<open>array.array\<close> objects and
  \<^verbatim>\<open>structarray\<close> objects) and numpy arrays with calibrations.

  Numbers of a machine format are kept as bit patterns: the code never computes with
  them, it only moves them. A Python \<^verbatim>\<open>float\<close> is its IEEE-754 binary64 pattern, a buffer
  is a list of bytes, a Python 3 \<^verbatim>\<open>str\<close> value is its list of code points. Dictionary keys
  are the (ASCII) names of tags. The platform is a little-endian LP64 one, where the C
  type \<^verbatim>\<open>long\<close> has 8 bytes, and the interpreter is one in which \<^verbatim>\<open>array.tostring\<close> exists
  (it was removed in Python 3.9).
\<close>

type_synonym byte = "8 word"
type_synonym float64 = "64 word"
type_synonym pystr = "int list"

text \<open>The numeric type codes of \<^verbatim>\<open>array.array\<close> and of the fields of a \<^verbatim>\<open>structarray\<close>.\<close>

datatype typecode =
  Tc_b | Tc_B | Tc_h | Tc_H | Tc_i | Tc_I | Tc_l | Tc_L | Tc_q | Tc_Q | Tc_f | Tc_d

text \<open>
  A Python dict is an association list in insertion order (keys are unique in a dict;
  lookup takes the first entry). \<open>TArray\<close> is an \<^verbatim>\<open>array.array\<close>: its type code and its
  buffer, which is what \<^verbatim>\<open>tostring()\<close> returns. \<open>TStruct\<close> is a \<^verbatim>\<open>structarray\<close>: the type
  codes of its fields and its \<^verbatim>\<open>raw_data\<close>.
\<close>

datatype tag =
    TDict "(string \<times> tag) list"
  | TList "tag list"
  | TNone
  | TBool bool
  | TInt int
  | TFloat float64
  | TStr pystr
  | TArray typecode "byte list"
  | TStruct "typecode list" "byte list"

text \<open>
  Every exception the code can raise is a value. The two \<^verbatim>\<open>assert\<close> statements of
  \<^verbatim>\<open>imagedatadict_to_ndarray\<close> are kept apart: \<open>TypeMismatch\<close> is the assertion on the
  element type (line 79), \<open>PixelDepthMismatch\<close> the one on the item size (line 80).
\<close>

datatype error =
    KeyError | IndexError | TypeError | AttributeError | ValueError | StopIteration
  | NameError | UnicodeDecodeError | IOError | CodecError
  | TypeMismatch | PixelDepthMismatch

definition ebind :: "error + 'a \<Rightarrow> ('a \<Rightarrow> error + 'b) \<Rightarrow> error + 'b" where
  "ebind m f = (case m of Inl e \<Rightarrow> Inl e | Inr v \<Rightarrow> f v)"

datatype np_dtype =
    Int8 | UInt8 | Int16 | UInt16 | Int32 | UInt32 | Int64 | UInt64
  | Float16 | Float32 | Float64 | Complex64 | Complex128 | Bool8

text \<open>
  The byte order of the elements of an array: that of the platform, or the other one
  (\<^verbatim>\<open>dtype.byteorder\<close> is \<^verbatim>\<open>'>'\<close>, as for \<^verbatim>\<open>np.dtype('>i2')\<close>). The attributes \<^verbatim>\<open>dtype.type\<close>,
  \<^verbatim>\<open>dtype.char\<close> and \<^verbatim>\<open>dtype.itemsize\<close> do not depend on it.
\<close>

datatype byteorder = NativeOrder | BigEndian

text \<open>
  A numpy array: element type, byte order, shape and the buffer in row-major order.
  \<^verbatim>\<open>flatten()\<close> and \<^verbatim>\<open>bytes(nparr.data)\<close> both read the buffer in that order.
\<close>

record ndarray =
  dtype :: np_dtype
  byteorder :: byteorder
  shape :: "nat list"
  buf :: "byte list"

fun np_itemsize :: "np_dtype \<Rightarrow> nat" where
  "np_itemsize Int8 = 1"
| "np_itemsize UInt8 = 1"
| "np_itemsize Bool8 = 1"
| "np_itemsize Int16 = 2"
| "np_itemsize UInt16 = 2"
| "np_itemsize Float16 = 2"
| "np_itemsize Int32 = 4"
| "np_itemsize UInt32 = 4"
| "np_itemsize Float32 = 4"
| "np_itemsize Int64 = 8"
| "np_itemsize UInt64 = 8"
| "np_itemsize Float64 = 8"
| "np_itemsize Complex64 = 8"
| "np_itemsize Complex128 = 16"

text \<open>
  The invariant of a numpy array: the buffer holds exactly the elements of the shape, and
  an element type of one byte has no byte order of its own.
\<close>

definition wf_ndarray :: "ndarray \<Rightarrow> bool" where
  "wf_ndarray a =
     (length (buf a) = np_itemsize (dtype a) * prod_list (shape a)
      \<and> (np_itemsize (dtype a) = 1 \<longrightarrow> byteorder a = NativeOrder))"

fun itemsize :: "typecode \<Rightarrow> nat" where
  "itemsize Tc_b = 1"
| "itemsize Tc_B = 1"
| "itemsize Tc_h = 2"
| "itemsize Tc_H = 2"
| "itemsize Tc_i = 4"
| "itemsize Tc_I = 4"
| "itemsize Tc_l = 8"
| "itemsize Tc_L = 8"
| "itemsize Tc_q = 8"
| "itemsize Tc_Q = 8"
| "itemsize Tc_f = 4"
| "itemsize Tc_d = 8"

text \<open>\<^verbatim>\<open>np.dtype(typecode)\<close>: the numpy element type named by an array type code.\<close>

fun np_of_typecode :: "typecode \<Rightarrow> np_dtype" where
  "np_of_typecode Tc_b = Int8"
| "np_of_typecode Tc_B = UInt8"
| "np_of_typecode Tc_h = Int16"
| "np_of_typecode Tc_H = UInt16"
| "np_of_typecode Tc_i = Int32"
| "np_of_typecode Tc_I = UInt32"
| "np_of_typecode Tc_l = Int64"
| "np_of_typecode Tc_L = UInt64"
| "np_of_typecode Tc_q = Int64"
| "np_of_typecode Tc_Q = UInt64"
| "np_of_typecode Tc_f = Float32"
| "np_of_typecode Tc_d = Float64"

text \<open>
  \<^verbatim>\<open>nparr.dtype.char\<close> as an \<^verbatim>\<open>array.array\<close> type code. The characters of the other element
  types (\<^verbatim>\<open>'?'\<close>, \<^verbatim>\<open>'e'\<close>, \<^verbatim>\<open>'F'\<close>, \<^verbatim>\<open>'D'\<close>) are no type codes: \<^verbatim>\<open>array.array\<close> raises ValueError.
\<close>

fun dtype_char :: "np_dtype \<Rightarrow> typecode option" where
  "dtype_char Int8 = Some Tc_b"
| "dtype_char UInt8 = Some Tc_B"
| "dtype_char Int16 = Some Tc_h"
| "dtype_char UInt16 = Some Tc_H"
| "dtype_char Int32 = Some Tc_i"
| "dtype_char UInt32 = Some Tc_I"
| "dtype_char Int64 = Some Tc_l"
| "dtype_char UInt64 = Some Tc_L"
| "dtype_char Float32 = Some Tc_f"
| "dtype_char Float64 = Some Tc_d"
| "dtype_char Float16 = None"
| "dtype_char Complex64 = None"
| "dtype_char Complex128 = None"
| "dtype_char Bool8 = None"

section \<open>Python operations on tag values\<close>

text \<open>The items of an \<^verbatim>\<open>array.array\<close> as Python numbers, for indexing and iteration.\<close>

definition chunks :: "nat \<Rightarrow> 'a list \<Rightarrow> 'a list list" where
  "chunks n xs = map (\<lambda>i. take n (drop (i * n) xs)) [0..<length xs div n]"

definition le_int :: "byte list \<Rightarrow> int" where
  "le_int bs = foldr (\<lambda>b a. uint b + 256 * a) bs 0"

definition signed_of :: "nat \<Rightarrow> int \<Rightarrow> int" where
  "signed_of bits n = (if n < 2 ^ (bits - 1) then n else n - 2 ^ bits)"

text \<open>Widening a binary32 pattern to binary64, as C does when a float becomes a double.\<close>

definition f32_to_f64 :: "int \<Rightarrow> int" where
  "f32_to_f64 w =
     (let s = w div 2 ^ 31; e = (w div 2 ^ 23) mod 256; m = w mod 2 ^ 23 in
      s * 2 ^ 63 +
      (if e = 255 then 2047 * 2 ^ 52 + (if m = 0 then 0 else (m * 2 ^ 29) OR 2 ^ 51)
       else if e = 0 then
         (if m = 0 then 0
          else let k = length (filter (\<lambda>i. 2 ^ i \<le> m) [1..<23])
               in (int k + 874) * 2 ^ 52 + (m - 2 ^ k) * 2 ^ (52 - k))
       else (e + 896) * 2 ^ 52 + m * 2 ^ 29))"

fun array_item :: "typecode \<Rightarrow> byte list \<Rightarrow> tag" where
  "array_item Tc_f bs = TFloat (word_of_int (f32_to_f64 (le_int bs)))"
| "array_item Tc_d bs = TFloat (word_of_int (le_int bs))"
| "array_item Tc_b bs = TInt (signed_of 8 (le_int bs))"
| "array_item Tc_h bs = TInt (signed_of 16 (le_int bs))"
| "array_item Tc_i bs = TInt (signed_of 32 (le_int bs))"
| "array_item Tc_l bs = TInt (signed_of 64 (le_int bs))"
| "array_item Tc_q bs = TInt (signed_of 64 (le_int bs))"
| "array_item tc bs = TInt (le_int bs)"

definition array_tolist :: "typecode \<Rightarrow> byte list \<Rightarrow> tag list" where
  "array_tolist tc bs = map (array_item tc) (chunks (itemsize tc) bs)"

text \<open>\<^verbatim>\<open>x[key]\<close> with a string key: only a dict takes it.\<close>

fun getitem_key :: "tag \<Rightarrow> string \<Rightarrow> error + tag" where
  "getitem_key (TDict kvs) k = (case map_of kvs k of None \<Rightarrow> Inl KeyError | Some v \<Rightarrow> Inr v)"
| "getitem_key _ k = Inl TypeError"

text \<open>\<^verbatim>\<open>x[-1]\<close>: the last item of a sequence; in a dict, \<open>-1\<close> is a key that no tag has.\<close>

fun getitem_last :: "tag \<Rightarrow> error + tag" where
  "getitem_last (TList xs) = (if xs = [] then Inl IndexError else Inr (last xs))"
| "getitem_last (TStr s) = (if s = [] then Inl IndexError else Inr (TStr [last s]))"
| "getitem_last (TArray tc bs) =
     (if array_tolist tc bs = [] then Inl IndexError else Inr (last (array_tolist tc bs)))"
| "getitem_last (TDict kvs) = Inl KeyError"
| "getitem_last _ = Inl TypeError"

text \<open>\<^verbatim>\<open>x.get(key, default)\<close>: a method of dicts only.\<close>

fun get_default :: "tag \<Rightarrow> string \<Rightarrow> tag \<Rightarrow> error + tag" where
  "get_default (TDict kvs) k d = Inr (case map_of kvs k of None \<Rightarrow> d | Some v \<Rightarrow> v)"
| "get_default _ k d = Inl AttributeError"

text \<open>\<^verbatim>\<open>for v in x\<close>: the items of a list or array, the keys of a dict, the characters of a string.\<close>

fun py_iter :: "tag \<Rightarrow> error + tag list" where
  "py_iter (TList xs) = Inr xs"
| "py_iter (TDict kvs) = Inr (map (\<lambda>kv. TStr (map of_char (fst kv))) kvs)"
| "py_iter (TStr s) = Inr (map (\<lambda>c. TStr [c]) s)"
| "py_iter (TArray tc bs) = Inr (array_tolist tc bs)"
| "py_iter _ = Inl TypeError"

text \<open>
  The truth value of a tag in \<^verbatim>\<open>if x:\<close>. A float is false when it is \<open>+0.0\<close> or \<open>-0.0\<close>; a
  \<^verbatim>\<open>structarray\<close> is a plain object and is true.
\<close>

fun py_truthy :: "tag \<Rightarrow> bool" where
  "py_truthy (TDict kvs) = (kvs \<noteq> [])"
| "py_truthy (TList xs) = (xs \<noteq> [])"
| "py_truthy TNone = False"
| "py_truthy (TBool b) = b"
| "py_truthy (TInt n) = (n \<noteq> 0)"
| "py_truthy (TFloat x) = (x AND 0x7FFFFFFFFFFFFFFF \<noteq> 0)"
| "py_truthy (TStr s) = (s \<noteq> [])"
| "py_truthy (TArray tc bs) = (length bs div itemsize tc \<noteq> 0)"
| "py_truthy (TStruct tcs bs) = True"

text \<open>The integer a float is equal to, if any: Python compares and hashes \<open>2.0\<close> as \<open>2\<close>.\<close>

definition float_as_int :: "float64 \<Rightarrow> int option" where
  "float_as_int x =
     (let b = uint x; e = (b div 2 ^ 52) mod 2048; m = b mod 2 ^ 52; sig = 2 ^ 52 + m;
          mag = (if e = 2047 then None
                 else if e = 0 then (if m = 0 then Some 0 else None)
                 else if 1075 \<le> e then Some (sig * 2 ^ nat (e - 1075))
                 else if 1075 - e \<le> 52 \<and> sig mod 2 ^ nat (1075 - e) = 0
                   then Some (sig div 2 ^ nat (1075 - e))
                 else None)
      in map_option (\<lambda>v. if 2 ^ 63 \<le> b then - v else v) mag)"

text \<open>\<^verbatim>\<open>x == n\<close> for an integer \<open>n\<close>: true for the int, bool or float of that value.\<close>

fun py_eq_int :: "tag \<Rightarrow> int \<Rightarrow> bool" where
  "py_eq_int (TInt i) n = (i = n)"
| "py_eq_int (TBool b) n = ((if b then 1 else 0) = n)"
| "py_eq_int (TFloat x) n = (float_as_int x = Some n)"
| "py_eq_int _ n = False"

text \<open>
  The conversions of \<^verbatim>\<open>float()\<close> from an int and from a string are library code that
  this module only calls; they are parameters of the model.
\<close>

record pylib =
  float_of_int :: "int \<Rightarrow> error + float64"
  float_of_str :: "pystr \<Rightarrow> error + float64"

fun py_float :: "pylib \<Rightarrow> tag \<Rightarrow> error + float64" where
  "py_float lib (TFloat x) = Inr x"
| "py_float lib (TInt n) = float_of_int lib n"
| "py_float lib (TBool b) = Inr (if b then 0x3FF0000000000000 else 0)"
| "py_float lib (TStr s) = float_of_str lib s"
| "py_float lib _ = Inl TypeError"

section \<open>The tables of the module\<close>

definition structarray_to_np_map :: "(typecode list \<times> np_dtype) list" where
  "structarray_to_np_map = [([Tc_d, Tc_d], Complex128), ([Tc_f, Tc_f], Complex64)]"

definition np_to_structarray_map :: "(np_dtype \<times> typecode list) list" where
  "np_to_structarray_map = map (\<lambda>kv. (snd kv, fst kv)) structarray_to_np_map"

text \<open>
  The dict \<^verbatim>\<open>dm_image_dtypes\<close>, in the order of its declaration, which is the order in
  which \<^verbatim>\<open>items()\<close> yields its entries.
\<close>

definition dm_image_dtypes :: "(int \<times> string \<times> np_dtype) list" where
  "dm_image_dtypes =
     [(1, ''int16'', Int16),
      (2, ''float32'', Float32),
      (3, ''Complex64'', Complex64),
      (6, ''uint8'', Int8),
      (7, ''int32'', Int32),
      (9, ''int8'', Int8),
      (10, ''uint16'', UInt16),
      (11, ''uint32'', UInt32),
      (12, ''float64'', Float64),
      (13, ''Complex128'', Complex128),
      (14, ''Bool'', Int8),
      (23, ''RGB'', Int32)]"

text \<open>
  A tag used as a key of \<^verbatim>\<open>dm_image_dtypes\<close>: a number finds the entry of the integer it is
  equal to, a dict, list or array cannot be hashed, anything else finds nothing.
\<close>

fun dict_key_int :: "tag \<Rightarrow> error + int option" where
  "dict_key_int (TInt n) = Inr (Some n)"
| "dict_key_int (TBool b) = Inr (Some (if b then 1 else 0))"
| "dict_key_int (TFloat x) = Inr (float_as_int x)"
| "dict_key_int (TDict kvs) = Inl TypeError"
| "dict_key_int (TList xs) = Inl TypeError"
| "dict_key_int (TArray tc bs) = Inl TypeError"
| "dict_key_int _ = Inr None"

definition dm_image_dtypes_getitem :: "tag \<Rightarrow> error + string \<times> np_dtype" where
  "dm_image_dtypes_getitem key =
     ebind (dict_key_int key) (\<lambda>k.
       case k of None \<Rightarrow> Inl KeyError
       | Some n \<Rightarrow> (case map_of dm_image_dtypes n of None \<Rightarrow> Inl KeyError | Some v \<Rightarrow> Inr v))"

section \<open>numpy operations\<close>

text \<open>
  \<^verbatim>\<open>np.asarray(arr, dtype=arr.typecode)\<close>: a flat array over the items of \<open>arr\<close>, in the byte
  order of the platform.
\<close>

definition np_asarray :: "typecode \<Rightarrow> byte list \<Rightarrow> ndarray" where
  "np_asarray tc bs =
     \<lparr>dtype = np_of_typecode tc, byteorder = NativeOrder,
      shape = [length bs div itemsize tc], buf = bs\<rparr>"

text \<open>
  \<^verbatim>\<open>np.frombuffer(raw, dtype)\<close>: the buffer must hold whole elements, which are read in the
  byte order of the platform (\<open>dtype\<close> is a numpy type such as \<^verbatim>\<open>np.complex64\<close>).
\<close>

definition np_frombuffer :: "byte list \<Rightarrow> np_dtype \<Rightarrow> error + ndarray" where
  "np_frombuffer bs dt =
     (if length bs mod np_itemsize dt \<noteq> 0 then Inl ValueError
      else Inr \<lparr>dtype = dt, byteorder = NativeOrder,
                shape = [length bs div np_itemsize dt], buf = bs\<rparr>)"

text \<open>
  \<^verbatim>\<open>array.array(nparr.dtype.char, nparr.flatten())\<close> stores the values of the elements in the
  byte order of the platform: the buffer of the array when that is its byte order, and
  otherwise its elements, in their order, each with its bytes reversed.
\<close>

definition native_items :: "ndarray \<Rightarrow> byte list" where
  "native_items a =
     (if byteorder a = NativeOrder then buf a
      else concat (map rev (chunks (np_itemsize (dtype a)) (buf a))))"

text \<open>
  \<^verbatim>\<open>im.reshape(dims)\<close>: the extents must multiply to the number of elements; one extent
  may be \<open>-1\<close> and is then computed from the others. The buffer is not touched.
\<close>

definition np_reshape :: "ndarray \<Rightarrow> int list \<Rightarrow> error + ndarray" where
  "np_reshape a dims =
     (let n = int (prod_list (shape a)) in
      if \<exists>d \<in> set dims. d < - 1 then Inl ValueError
      else if count_list dims (- 1) = 0 then
        (if prod_list dims = n then Inr (a\<lparr>shape := map nat dims\<rparr>) else Inl ValueError)
      else if count_list dims (- 1) = 1 then
        (let p = prod_list (filter (\<lambda>d. d \<noteq> - 1) dims) in
         if p = 0 \<or> n mod p \<noteq> 0 then Inl ValueError
         else Inr (a\<lparr>shape := map (\<lambda>d. if d = - 1 then nat (n div p) else nat d) dims\<rparr>))
      else Inl ValueError)"

text \<open>
  \<^verbatim>\<open>x[::-1]\<close> as the sequence of extents that \<^verbatim>\<open>reshape\<close> receives: a reversed list or array
  of integers. Any other value, and any item that is not an int, is a TypeError.
\<close>

fun reversed_slice :: "tag \<Rightarrow> error + tag list" where
  "reversed_slice (TList xs) = Inr (rev xs)"
| "reversed_slice (TArray tc bs) = Inr (rev (array_tolist tc bs))"
| "reversed_slice _ = Inl TypeError"

fun shape_items :: "tag list \<Rightarrow> error + int list" where
  "shape_items [] = Inr []"
| "shape_items (TInt n # xs) = ebind (shape_items xs) (\<lambda>ns. Inr (n # ns))"
| "shape_items (x # xs) = Inl TypeError"

section \<open>imagedatadict_to_ndarray and ndarray_to_imagedatadict\<close>

text \<open>
  Lines 70 to 77: the data \<open>arr\<close> become the flat array \<open>im\<close>, which stays \<open>None\<close> when \<open>arr\<close> is
  neither an array nor a structarray.
\<close>

definition data_to_im :: "tag \<Rightarrow> error + ndarray option" where
  "data_to_im arr =
     (case arr of
        TArray tc bs \<Rightarrow> Inr (Some (np_asarray tc bs))
      | TStruct tcs raw \<Rightarrow>
          (case map_of structarray_to_np_map tcs of
             None \<Rightarrow> Inl KeyError
           | Some dt \<Rightarrow> ebind (np_frombuffer raw dt) (\<lambda>a. Inr (Some a)))
      | _ \<Rightarrow> Inr None)"

text \<open>
  The two assertions compare \<open>im\<close> with \<open>DataType\<close> and \<open>PixelDepth\<close>; the result is \<open>im\<close>
  reshaped to the reversed \<open>Dimensions\<close>. In the first assertion Python evaluates
  \<^verbatim>\<open>dm_image_dtypes[imdict["DataType"]]\<close> before \<^verbatim>\<open>im.dtype\<close>, which fails on \<open>None\<close>.
\<close>

definition imagedatadict_to_ndarray :: "tag \<Rightarrow> error + ndarray" where
  "imagedatadict_to_ndarray imdict =
     ebind (getitem_key imdict ''Data'') (\<lambda>arr.
     ebind (data_to_im arr) (\<lambda>im.
     ebind (getitem_key imdict ''DataType'') (\<lambda>code.
     ebind (dm_image_dtypes_getitem code) (\<lambda>entry.
     case im of
       None \<Rightarrow> Inl AttributeError
     | Some a \<Rightarrow>
         if snd entry \<noteq> dtype a then Inl TypeMismatch
         else
           ebind (getitem_key imdict ''PixelDepth'') (\<lambda>depth.
           if \<not> py_eq_int depth (int (np_itemsize (dtype a))) then Inl PixelDepthMismatch
           else
             ebind (getitem_key imdict ''Dimensions'') (\<lambda>dims.
             ebind (reversed_slice dims) (\<lambda>items.
             ebind (shape_items items) (\<lambda>sh. np_reshape a sh))))))))"

text \<open>
  \<^verbatim>\<open>next(k for k, v in iter(dm_image_dtypes.items()) if v[1] == t)\<close>: the first code of the
  table whose element type is \<open>t\<close>; \<^verbatim>\<open>next\<close> raises StopIteration when there is none.
\<close>

fun first_code :: "(int \<times> string \<times> np_dtype) list \<Rightarrow> np_dtype \<Rightarrow> error + int" where
  "first_code [] t = Inl StopIteration"
| "first_code ((k, v) # rest) t = (if snd v = t then Inr k else first_code rest t)"

definition ndarray_to_imagedatadict :: "ndarray \<Rightarrow> error + (string \<times> tag) list" where
  "ndarray_to_imagedatadict nparr =
     ebind (first_code dm_image_dtypes (dtype nparr)) (\<lambda>dm_type.
     let ret = [(''DataType'', TInt dm_type),
                (''PixelDepth'', TInt (int (np_itemsize (dtype nparr)))),
                (''Dimensions'', TList (map (\<lambda>d. TInt (int d)) (rev (shape nparr))))]
     in case map_of np_to_structarray_map (dtype nparr) of
          Some types \<Rightarrow> Inr (ret @ [(''Data'', TStruct types (buf nparr))])
        | None \<Rightarrow>
            (case dtype_char (dtype nparr) of
               None \<Rightarrow> Inl ValueError
             | Some tc \<Rightarrow> Inr (ret @ [(''Data'', TArray tc (native_items nparr))])))"

section \<open>fix_strings\<close>

text \<open>
  \<^verbatim>\<open>bytes.decode("utf-16")\<close>: a byte order mark selects the byte order and is dropped,
  without one the order is little-endian; a trailing single byte or a surrogate without
  its partner raises UnicodeDecodeError.
\<close>

fun utf16_units :: "bool \<Rightarrow> byte list \<Rightarrow> int list option" where
  "utf16_units be [] = Some []"
| "utf16_units be [b] = None"
| "utf16_units be (b0 # b1 # bs) =
     map_option
       (\<lambda>us. (if be then 256 * uint b0 + uint b1 else uint b0 + 256 * uint b1) # us)
       (utf16_units be bs)"

fun utf16_points :: "int list \<Rightarrow> pystr option" where
  "utf16_points [] = Some []"
| "utf16_points [u] = (if 0xD800 \<le> u \<and> u < 0xE000 then None else Some [u])"
| "utf16_points (u # l # us) =
     (if u < 0xD800 \<or> 0xE000 \<le> u then map_option (\<lambda>r. u # r) (utf16_points (l # us))
      else if u < 0xDC00 \<and> 0xDC00 \<le> l \<and> l < 0xE000
        then map_option (\<lambda>r. (0x10000 + (u - 0xD800) * 0x400 + (l - 0xDC00)) # r)
               (utf16_points us)
      else None)"

definition utf16_decode :: "byte list \<Rightarrow> error + pystr" where
  "utf16_decode bs =
     (let units = (if take 2 bs = [0xFF, 0xFE] then utf16_units False (drop 2 bs)
                   else if take 2 bs = [0xFE, 0xFF] then utf16_units True (drop 2 bs)
                   else utf16_units False bs)
      in case units of
           None \<Rightarrow> Inl UnicodeDecodeError
         | Some us \<Rightarrow>
             (case utf16_points us of None \<Rightarrow> Inl UnicodeDecodeError | Some s \<Rightarrow> Inr s))"

text \<open>
  The two loops of \<^verbatim>\<open>fix_strings\<close> are \<open>fix_strings_items\<close> (over \<^verbatim>\<open>d.items()\<close>, filling the
  new dict \<open>r\<close>) and \<open>fix_strings_list\<close> (over the list, appending to \<open>l\<close>). An exception in a
  recursive call leaves the loop.
\<close>

fun fix_strings :: "tag \<Rightarrow> error + tag"
  and fix_strings_items :: "(string \<times> tag) list \<Rightarrow> error + (string \<times> tag) list"
  and fix_strings_list :: "tag list \<Rightarrow> error + tag list" where
  "fix_strings (TDict kvs) = ebind (fix_strings_items kvs) (\<lambda>r. Inr (TDict r))"
| "fix_strings (TList xs) = ebind (fix_strings_list xs) (\<lambda>l. Inr (TList l))"
| "fix_strings (TArray tc bs) = ebind (utf16_decode bs) (\<lambda>s. Inr (TStr s))"
| "fix_strings TNone = Inr TNone"
| "fix_strings (TBool b) = Inr (TBool b)"
| "fix_strings (TInt n) = Inr (TInt n)"
| "fix_strings (TFloat x) = Inr (TFloat x)"
| "fix_strings (TStr s) = Inr (TStr s)"
| "fix_strings (TStruct tcs bs) = Inr (TStruct tcs bs)"
| "fix_strings_items [] = Inr []"
| "fix_strings_items ((k, v) # kvs) =
     (if k \<noteq> ''Data''
      then ebind (fix_strings v) (\<lambda>v'. ebind (fix_strings_items kvs) (\<lambda>r. Inr ((k, v') # r)))
      else ebind (fix_strings_items kvs) (\<lambda>r. Inr ((k, v) # r)))"
| "fix_strings_list [] = Inr []"
| "fix_strings_list (v # vs) =
     ebind (fix_strings v) (\<lambda>v'. ebind (fix_strings_list vs) (\<lambda>l. Inr (v' # l)))"

section \<open>Files and the container codec\<close>

text \<open>
  The argument \<open>file\<close> is a path (a string) or a file-like object. A file-like object is
  named by the file it is open on; the disk maps a file name to its content.
\<close>

datatype file_arg = Path string | Stream string

text \<open>
  Modelled from the spec: the container codec \<^verbatim>\<open>parse_dm_header\<close> of the module
  \<^verbatim>\<open>parse_dm3\<close>, whose source is not part of this development. Its contract is
  \<^verbatim>\<open>decode(stream) -> TagNode\<close> and \<^verbatim>\<open>encode(stream, TagNode) -> ()\<close>, both failing with a
  CodecError. The bytes of a file are not modelled: the content of a file is the list of
  the documents encoded into it, \<open>parse_dm_header_write\<close> appends one and
  \<open>parse_dm_header\<close> decodes the first.
\<close>

type_synonym disk = "string \<Rightarrow> tag list option"

definition parse_dm_header :: "string \<Rightarrow> disk \<Rightarrow> error + tag" where
  "parse_dm_header s d =
     (case d s of None \<Rightarrow> Inl CodecError | Some [] \<Rightarrow> Inl CodecError | Some (t # ts) \<Rightarrow> Inr t)"

definition parse_dm_header_write :: "string \<Rightarrow> tag \<Rightarrow> disk \<Rightarrow> (error + unit) \<times> disk" where
  "parse_dm_header_write s t d =
     (case d s of None \<Rightarrow> (Inl CodecError, d) | Some ts \<Rightarrow> (Inr (), d(s \<mapsto> ts @ [t])))"

section \<open>load_image\<close>

text \<open>The loop over the \<open>Dimension\<close> entries, which appends one triple for each.\<close>

fun load_calibrations :: "tag list \<Rightarrow> error + (tag \<times> tag \<times> tag) list" where
  "load_calibrations [] = Inr []"
| "load_calibrations (dimension # rest) =
     ebind (getitem_key dimension ''Origin'') (\<lambda>origin.
     ebind (getitem_key dimension ''Scale'') (\<lambda>scale.
     ebind (getitem_key dimension ''Units'') (\<lambda>units.
     ebind (load_calibrations rest) (\<lambda>cs. Inr ((origin, scale, units) # cs)))))"

text \<open>
  Lines 173 to 180: the dict \<open>properties\<close>. When this code runs, \<open>image_tags\<close> has answered
  \<^verbatim>\<open>image_tags['ImageData']\<close> and is a dict.
\<close>

definition load_properties :: "pylib \<Rightarrow> tag \<Rightarrow> error + (string \<times> tag) list" where
  "load_properties lib image_tags =
     (case image_tags of
        TDict kvs \<Rightarrow>
          (case map_of kvs ''ImageTags'' of
             None \<Rightarrow> Inr []
           | Some it \<Rightarrow>
               ebind (get_default it ''ImageScanned'' (TDict [])) (\<lambda>scanned.
               ebind (get_default scanned ''EHT'' (TDict [])) (\<lambda>voltage.
               if py_truthy voltage
               then ebind (py_float lib voltage) (\<lambda>v.
                      Inr [(''imported_properties'', it),
                           (''autostem'', TDict [(''high_tension_v'', TFloat v)]),
                           (''extra_high_tension'', TFloat v)])
               else Inr [(''imported_properties'', it)])))
      | _ \<Rightarrow> Inl TypeError)"

text \<open>
  The result of \<^verbatim>\<open>load_image\<close>: data, calibrations, intensity, title (\<open>TNone\<close> is Python's
  \<open>None\<close>) and properties.
\<close>

type_synonym loaded =
  "ndarray \<times> (tag \<times> tag \<times> tag) list \<times> (tag \<times> tag \<times> tag) \<times> tag \<times> (string \<times> tag) list"

text \<open>Lines 165 to 181: what \<^verbatim>\<open>load_image\<close> reads from the selected entry \<open>image_tags\<close>.\<close>

definition load_image_tags :: "pylib \<Rightarrow> tag \<Rightarrow> error + loaded" where
  "load_image_tags lib image_tags =
     ebind (getitem_key image_tags ''ImageData'') (\<lambda>image_data.
     ebind (imagedatadict_to_ndarray image_data) (\<lambda>data.
     ebind (get_default image_data ''Calibrations'' (TDict [])) (\<lambda>calibration_tags.
     ebind (get_default calibration_tags ''Dimension'' (TList [])) (\<lambda>dimension_list.
     ebind (py_iter dimension_list) (\<lambda>dimensions.
     ebind (load_calibrations dimensions) (\<lambda>calibrations.
     ebind (get_default calibration_tags ''Brightness'' (TDict [])) (\<lambda>brightness.
     ebind (get_default brightness ''Origin'' (TFloat 0)) (\<lambda>origin.
     ebind (get_default brightness ''Scale'' (TFloat 0x3FF0000000000000)) (\<lambda>scale.
     ebind (get_default brightness ''Units'' (TStr [])) (\<lambda>units.
     ebind (get_default image_tags ''Name'' TNone) (\<lambda>title.
     ebind (load_properties lib image_tags) (\<lambda>properties.
     Inr (data, rev calibrations, (origin, scale, units), title, properties)))))))))))))"

text \<open>
  Lines 161 to 164: the tree that the codec returns is normalised, and the entry at index
  \<open>-1\<close> of its \<open>ImageList\<close> is selected.
\<close>

definition load_image_dmtag :: "pylib \<Rightarrow> tag \<Rightarrow> error + loaded" where
  "load_image_dmtag lib dmtag0 =
     ebind (fix_strings dmtag0) (\<lambda>dmtag.
     ebind (getitem_key dmtag ''ImageList'') (\<lambda>image_list.
     ebind (getitem_last image_list) (\<lambda>image_tags.
     load_image_tags lib image_tags)))"

text \<open>A path is opened for reading (IOError when there is no such file) and read as a stream.\<close>

definition load_image :: "pylib \<Rightarrow> file_arg \<Rightarrow> disk \<Rightarrow> error + loaded" where
  "load_image lib file d =
     (case file of
        Path p \<Rightarrow>
          (if d p = None then Inl IOError
           else ebind (parse_dm_header p d) (load_image_dmtag lib))
      | Stream s \<Rightarrow> ebind (parse_dm_header s d) (load_image_dmtag lib))"

section \<open>save_image\<close>

text \<open>A calibration object, read through its attributes \<open>offset\<close>, \<open>scale\<close> and \<open>units\<close>.\<close>

record calibration =
  offset :: float64
  scale :: float64
  units :: pystr

text \<open>\<^verbatim>\<open>d.setdefault(k, v)\<close> returns the value under \<open>k\<close>, after storing \<open>v\<close> if there was none.\<close>

definition setdefault :: "string \<Rightarrow> tag \<Rightarrow> (string \<times> tag) list \<Rightarrow> tag \<times> (string \<times> tag) list" where
  "setdefault k v d = (case map_of d k of Some v' \<Rightarrow> (v', d) | None \<Rightarrow> (v, d @ [(k, v)]))"

text \<open>\<^verbatim>\<open>d[k] = v\<close>: the entry of \<open>k\<close> is replaced where it stands, a new key goes to the end.\<close>

fun setitem :: "string \<Rightarrow> tag \<Rightarrow> (string \<times> tag) list \<Rightarrow> (string \<times> tag) list" where
  "setitem k v [] = [(k, v)]"
| "setitem k v ((k', v') # d) = (if k' = k then (k, v) # d else (k', v') # setitem k v d)"

definition dimension_dict :: "calibration \<Rightarrow> tag" where
  "dimension_dict c =
     TDict [(''Origin'', TFloat (offset c)), (''Scale'', TFloat (scale c)),
            (''Units'', TStr (units c))]"

text \<open>
  Lines 200 to 206. The dicts and the list that \<^verbatim>\<open>setdefault\<close> returns are the objects stored
  in \<open>data_dict\<close>, so appending to the list changes \<open>data_dict\<close>: the model stores the changed
  objects back.
\<close>

definition add_dimension_calibrations ::
  "calibration list \<Rightarrow> (string \<times> tag) list \<Rightarrow> error + (string \<times> tag) list" where
  "add_dimension_calibrations cals data_dict =
     (case setdefault ''Calibrations'' (TDict []) data_dict of
        (TDict c, dd) \<Rightarrow>
          (case setdefault ''Dimension'' (TList []) c of
             (TList l, c') \<Rightarrow>
               Inr (setitem ''Calibrations''
                      (TDict (setitem ''Dimension'' (TList (l @ map dimension_dict (rev cals))) c'))
                      dd)
           | _ \<Rightarrow> Inl AttributeError)
      | _ \<Rightarrow> Inl AttributeError)"

text \<open>Lines 208 to 211.\<close>

definition add_brightness ::
  "calibration \<Rightarrow> (string \<times> tag) list \<Rightarrow> error + (string \<times> tag) list" where
  "add_brightness ic data_dict =
     (case setdefault ''Calibrations'' (TDict []) data_dict of
        (TDict c, dd) \<Rightarrow>
          (case setdefault ''Brightness'' (TDict []) c of
             (TDict b, c') \<Rightarrow>
               Inr (setitem ''Calibrations''
                      (TDict (setitem ''Brightness''
                         (TDict (setitem ''Units'' (TStr (units ic))
                                  (setitem ''Scale'' (TFloat (scale ic))
                                    (setitem ''Origin'' (TFloat (offset ic)) b)))) c'))
                      dd)
           | _ \<Rightarrow> Inl TypeError)
      | _ \<Rightarrow> Inl AttributeError)"

text \<open>
  Lines 196 to 221: the dict \<open>ret\<close> that is handed to the codec. \<open>ret["ImageList"]\<close> holds
  \<open>data_dict\<close> itself, not a copy, so the calibrations added to \<open>data_dict\<close> afterwards are
  part of \<open>ret\<close>; the model builds \<open>ret\<close> from the final \<open>data_dict\<close>. An intensity calibration
  that is \<open>None\<close> is false in \<^verbatim>\<open>if intensity_calibration:\<close>, a calibration object is true; an
  empty list of calibrations stands for \<open>None\<close> as well.
\<close>

definition save_image_ret ::
  "ndarray \<Rightarrow> calibration list \<Rightarrow> calibration option \<Rightarrow> tag \<Rightarrow> error + tag" where
  "save_image_ret data dimensional_calibrations intensity_calibration metadata =
     ebind (ndarray_to_imagedatadict data) (\<lambda>data_dict0.
     ebind (if dimensional_calibrations \<noteq> []
              \<and> length dimensional_calibrations = length (shape data)
            then add_dimension_calibrations dimensional_calibrations data_dict0
            else Inr data_dict0) (\<lambda>data_dict1.
     ebind (case intensity_calibration of
              Some ic \<Rightarrow> add_brightness ic data_dict1
            | None \<Rightarrow> Inr data_dict1) (\<lambda>data_dict.
     Inr (TDict
       [(''ImageList'', TList [TDict [(''ImageData'', TDict data_dict),
                                      (''ImageTags'', metadata)]]),
        (''ImageSourceList'',
           TList [TDict [(''ClassName'', TStr (map of_char ''ImageSource:Simple'')),
                         (''Id'', TList [TInt 0]), (''ImageRef'', TInt 0)]]),
        (''DocumentObjectList'',
           TList [TDict [(''ImageSource'', TInt 0), (''AnnotationType'', TInt 20)]]),
        (''Image Behavior'', TDict [(''ViewDisplayID'', TInt 8)]),
        (''InImageMode'', TInt 1)]))))"

text \<open>
  With a path, line 190 opens the file for writing, which creates it empty (the path is
  taken to be one that can be opened), and line 191 evaluates \<^verbatim>\<open>save_image(n, f)\<close>: no
  name \<open>n\<close> is defined, so the call raises NameError before anything is written.
\<close>

definition save_image ::
  "ndarray \<Rightarrow> calibration list \<Rightarrow> calibration option \<Rightarrow> tag \<Rightarrow> file_arg \<Rightarrow> disk
     \<Rightarrow> (error + unit) \<times> disk" where
  "save_image data dimensional_calibrations intensity_calibration metadata file d =
     (case file of
        Path p \<Rightarrow> (Inl NameError, d(p \<mapsto> []))
      | Stream s \<Rightarrow>
          (case save_image_ret data dimensional_calibrations intensity_calibration metadata of
             Inl e \<Rightarrow> (Inl e, d)
           | Inr ret \<Rightarrow> parse_dm_header_write s ret d))"

section \<open>Notions used to state the properties\<close>

text \<open>The element types that occur in \<open>dm_image_dtypes\<close>.\<close>

definition supported_dtypes :: "np_dtype set" where
  "supported_dtypes = (\<lambda>e. snd (snd e)) ` set dm_image_dtypes"

text \<open>A calibration as the triple (origin, scale, units) that \<^verbatim>\<open>load_image\<close> returns.\<close>

definition calibration_tuple :: "calibration \<Rightarrow> tag \<times> tag \<times> tag" where
  "calibration_tuple c = (TFloat (offset c), TFloat (scale c), TStr (units c))"

text \<open>The node of a tree at the end of a path of dict keys and list indices.\<close>

datatype step = Key string | Index nat

fun lookup_path :: "tag \<Rightarrow> step list \<Rightarrow> tag option" where
  "lookup_path t [] = Some t"
| "lookup_path t (Key k # p) =
     (case t of
        TDict kvs \<Rightarrow> (case map_of kvs k of None \<Rightarrow> None | Some v \<Rightarrow> lookup_path v p)
      | _ \<Rightarrow> None)"
| "lookup_path t (Index i # p) =
     (case t of
        TList xs \<Rightarrow> (if i < length xs then lookup_path (xs ! i) p else None)
      | _ \<Rightarrow> None)"

text \<open>The leaves that are neither a dict, nor a list, nor an \<^verbatim>\<open>array.array\<close>.\<close>

fun is_scalar :: "tag \<Rightarrow> bool" where
  "is_scalar (TDict kvs) = False"
| "is_scalar (TList xs) = False"
| "is_scalar (TArray tc bs) = False"
| "is_scalar _ = True"

section \<open>Basic facts\<close>

lemma ebind_Inl [simp]: "ebind (Inl e) f = Inl e"
  by (simp add: ebind_def)

lemma ebind_Inr [simp]: "ebind (Inr v) f = f v"
  by (simp add: ebind_def)

lemma ebind_eq_Inr_iff: "ebind m f = Inr y \<longleftrightarrow> (\<exists>v. m = Inr v \<and> f v = Inr y)"
  by (cases m) simp_all

lemma ebind_eq_Inl_iff:
  "ebind m f = Inl e \<longleftrightarrow> m = Inl e \<or> (\<exists>v. m = Inr v \<and> f v = Inl e)"
  by (cases m) simp_all

section \<open>The type registry\<close>

lemma first_code_Inr_iff:
  "first_code tab t = Inr c \<longleftrightarrow>
     (\<exists>pre name post. tab = pre @ (c, name, t) # post \<and> t \<notin> (\<lambda>e. snd (snd e)) ` set pre)"
proof (induction tab)
  case Nil
  then show ?case by simp
next
  case (Cons e tab)
  obtain k name ty where e: "e = (k, name, ty)" by (cases e) auto
  show ?case
  proof (cases "ty = t")
    case True
    have "(\<exists>pre name' post. e # tab = pre @ (c, name', t) # post \<and> t \<notin> (\<lambda>e. snd (snd e)) ` set pre)
            \<longleftrightarrow> c = k"
    proof
      assume "\<exists>pre name' post. e # tab = pre @ (c, name', t) # post \<and> t \<notin> (\<lambda>e. snd (snd e)) ` set pre"
      then obtain pre name' post where d: "e # tab = pre @ (c, name', t) # post"
        and n: "t \<notin> (\<lambda>e. snd (snd e)) ` set pre" by blast
      show "c = k"
      proof (cases pre)
        case Nil
        with d e show ?thesis by simp
      next
        case (Cons a pre')
        with d e True n show ?thesis by auto
      qed
    next
      assume "c = k"
      with e True have "e # tab = [] @ (c, name, t) # tab" by simp
      then show "\<exists>pre name' post. e # tab = pre @ (c, name', t) # post \<and> t \<notin> (\<lambda>e. snd (snd e)) ` set pre"
        by (metis empty_iff image_empty list.set(1))
    qed
    with e True show ?thesis by auto
  next
    case False
    have "(\<exists>pre name' post. e # tab = pre @ (c, name', t) # post \<and> t \<notin> (\<lambda>e. snd (snd e)) ` set pre)
            \<longleftrightarrow> (\<exists>pre name' post. tab = pre @ (c, name', t) # post \<and> t \<notin> (\<lambda>e. snd (snd e)) ` set pre)"
      (is "?L \<longleftrightarrow> ?R")
    proof
      assume ?L
      then obtain pre name' post where d: "e # tab = pre @ (c, name', t) # post"
        and n: "t \<notin> (\<lambda>e. snd (snd e)) ` set pre" by blast
      show ?R
      proof (cases pre)
        case Nil
        with d e False show ?thesis by simp
      next
        case (Cons a pre')
        with d n have "tab = pre' @ (c, name', t) # post" "t \<notin> (\<lambda>e. snd (snd e)) ` set pre'"
          by auto
        then show ?thesis by blast
      qed
    next
      assume ?R
      then obtain pre name' post where d: "tab = pre @ (c, name', t) # post"
        and n: "t \<notin> (\<lambda>e. snd (snd e)) ` set pre" by blast
      from d have "e # tab = (e # pre) @ (c, name', t) # post" by simp
      moreover from n e False have "t \<notin> (\<lambda>e. snd (snd e)) ` set (e # pre)" by auto
      ultimately show ?L by blast
    qed
    with Cons.IH e False show ?thesis by simp
  qed
qed

lemma first_code_Inl_iff:
  "first_code tab t = Inl err \<longleftrightarrow> err = StopIteration \<and> t \<notin> (\<lambda>e. snd (snd e)) ` set tab"
  by (induction tab t rule: first_code.induct) auto

lemma supported_cases:
  assumes "first_code dm_image_dtypes t = Inr c"
  shows "(t = Int16 \<and> c = 1) \<or> (t = Float32 \<and> c = 2) \<or> (t = Complex64 \<and> c = 3)
       \<or> (t = Int8 \<and> c = 6) \<or> (t = Int32 \<and> c = 7) \<or> (t = UInt16 \<and> c = 10)
       \<or> (t = UInt32 \<and> c = 11) \<or> (t = Float64 \<and> c = 12) \<or> (t = Complex128 \<and> c = 13)"
  using assms by (cases t) (simp_all add: dm_image_dtypes_def)

lemma supported_first_code:
  assumes "t \<in> supported_dtypes"
  shows "\<exists>c. first_code dm_image_dtypes t = Inr c"
proof (cases "first_code dm_image_dtypes t")
  case (Inl e)
  with assms show ?thesis by (simp add: first_code_Inl_iff supported_dtypes_def)
next
  case (Inr c)
  then show ?thesis by blast
qed

text \<open>What \<^verbatim>\<open>ndarray_to_imagedatadict\<close> returns, entry by entry.\<close>

lemma ndarray_to_imagedatadict_Inr:
  assumes "ndarray_to_imagedatadict a = Inr dd"
  shows "\<exists>c. first_code dm_image_dtypes (dtype a) = Inr c \<and>
             dd = [(''DataType'', TInt c),
                   (''PixelDepth'', TInt (int (np_itemsize (dtype a)))),
                   (''Dimensions'', TList (map (\<lambda>d. TInt (int d)) (rev (shape a)))),
                   (''Data'',
                      case map_of np_to_structarray_map (dtype a) of
                        Some types \<Rightarrow> TStruct types (buf a)
                      | None \<Rightarrow> (case dtype_char (dtype a) of
                                   Some tc \<Rightarrow> TArray tc (native_items a) | None \<Rightarrow> TNone))]"
  using assms
  by (auto simp: ndarray_to_imagedatadict_def ebind_eq_Inr_iff Let_def split: option.splits)

lemma ndarray_to_imagedatadict_Inl:
  "ndarray_to_imagedatadict a = Inl e \<longleftrightarrow> e = StopIteration \<and> dtype a \<notin> supported_dtypes"
proof (cases "first_code dm_image_dtypes (dtype a)")
  case (Inl e')
  then have n: "e' = StopIteration" "dtype a \<notin> supported_dtypes"
    by (simp_all add: first_code_Inl_iff supported_dtypes_def)
  from Inl n have "ndarray_to_imagedatadict a = Inl StopIteration"
    by (simp add: ndarray_to_imagedatadict_def)
  with n show ?thesis by auto
next
  case (Inr c)
  have "dtype a \<in> supported_dtypes"
  proof (rule ccontr)
    assume "dtype a \<notin> supported_dtypes"
    then have "first_code dm_image_dtypes (dtype a) = Inl StopIteration"
      by (simp add: first_code_Inl_iff supported_dtypes_def)
    with Inr show False by simp
  qed
  moreover from supported_cases [OF Inr] Inr have "\<exists>dd. ndarray_to_imagedatadict a = Inr dd"
    by (elim disjE conjE)
       (simp_all add: ndarray_to_imagedatadict_def np_to_structarray_map_def
          structarray_to_np_map_def)
  ultimately show ?thesis by auto
qed

lemma supported_imagedatadict:
  assumes "dtype a \<in> supported_dtypes"
  shows "\<exists>dd. ndarray_to_imagedatadict a = Inr dd"
  using assms ndarray_to_imagedatadict_Inl [of a]
  by (cases "ndarray_to_imagedatadict a") auto

text \<open>
  C3 (the claim fails on the code). With a path, \<^verbatim>\<open>save_image\<close> creates the file empty and
  raises NameError: nothing is assembled and nothing is written, whatever the array, the
  calibrations and the metadata are.
\<close>

theorem save_image_path_raises:
  "save_image data dimensional_calibrations intensity_calibration metadata (Path p) d
     = (Inl NameError, d(p \<mapsto> []))"
  by (simp add: save_image_def)

text \<open>
  C6. The code that \<^verbatim>\<open>ndarray_to_imagedatadict\<close> stores under \<open>DataType\<close> is the first one, in
  the order of declaration of \<open>dm_image_dtypes\<close>, whose element type is that of the array:
  the table splits into entries of other element types, the entry of that code, and a
  rest. The lookup fails, with StopIteration, exactly when no entry has the element type.
  An \<open>int8\<close> array gets code 6; codes 9 and 14 name the same element type, so looking up
  the element type of code 9 does not give 9 back.
\<close>

theorem reverse_lookup_first_match:
  "(first_code dm_image_dtypes t = Inr c \<longleftrightarrow>
      (\<exists>pre name post. dm_image_dtypes = pre @ (c, name, t) # post
          \<and> t \<notin> (\<lambda>e. snd (snd e)) ` set pre))
   \<and> (first_code dm_image_dtypes t = Inl err \<longleftrightarrow> err = StopIteration \<and> t \<notin> supported_dtypes)
   \<and> (ndarray_to_imagedatadict a = Inr dd \<longrightarrow>
        (\<exists>k. first_code dm_image_dtypes (dtype a) = Inr k
           \<and> map_of dd ''DataType'' = Some (TInt k)))
   \<and> (ndarray_to_imagedatadict a = Inl err \<longleftrightarrow> err = StopIteration \<and> dtype a \<notin> supported_dtypes)
   \<and> (dtype a = Int8 \<longrightarrow>
        (\<exists>dd. ndarray_to_imagedatadict a = Inr dd \<and> map_of dd ''DataType'' = Some (TInt 6)))
   \<and> map_of dm_image_dtypes 9 = Some (''int8'', Int8)
   \<and> map_of dm_image_dtypes 14 = Some (''Bool'', Int8)
   \<and> first_code dm_image_dtypes Int8 = Inr 6"
proof (intro conjI impI)
  show "first_code dm_image_dtypes t = Inr c \<longleftrightarrow>
      (\<exists>pre name post. dm_image_dtypes = pre @ (c, name, t) # post
          \<and> t \<notin> (\<lambda>e. snd (snd e)) ` set pre)"
    by (rule first_code_Inr_iff)
  show "first_code dm_image_dtypes t = Inl err \<longleftrightarrow> err = StopIteration \<and> t \<notin> supported_dtypes"
    by (simp add: first_code_Inl_iff supported_dtypes_def)
  show "\<exists>k. first_code dm_image_dtypes (dtype a) = Inr k \<and> map_of dd ''DataType'' = Some (TInt k)"
    if "ndarray_to_imagedatadict a = Inr dd"
    using ndarray_to_imagedatadict_Inr [OF that] by auto
  show "ndarray_to_imagedatadict a = Inl err \<longleftrightarrow> err = StopIteration \<and> dtype a \<notin> supported_dtypes"
    by (rule ndarray_to_imagedatadict_Inl)
  show "\<exists>dd. ndarray_to_imagedatadict a = Inr dd \<and> map_of dd ''DataType'' = Some (TInt 6)"
    if "dtype a = Int8"
    using that
    by (simp add: ndarray_to_imagedatadict_def dm_image_dtypes_def np_to_structarray_map_def
          structarray_to_np_map_def native_items_def)
  show "map_of dm_image_dtypes 9 = Some (''int8'', Int8)"
    by (simp add: dm_image_dtypes_def)
  show "map_of dm_image_dtypes 14 = Some (''Bool'', Int8)"
    by (simp add: dm_image_dtypes_def)
  show "first_code dm_image_dtypes Int8 = Inr 6"
    by (simp add: dm_image_dtypes_def)
qed

theorem reverse_lookup_first_match_witness:
  "ndarray_to_imagedatadict \<lparr>dtype = Int8, byteorder = NativeOrder, shape = [2], buf = [1, 255]\<rparr>
     = Inr [(''DataType'', TInt 6), (''PixelDepth'', TInt 1), (''Dimensions'', TList [TInt 2]),
            (''Data'', TArray Tc_b [1, 255])]
   \<and> (\<exists>k. first_code dm_image_dtypes Int8 = Inr k
         \<and> map_of [(''DataType'', TInt 6), (''PixelDepth'', TInt 1),
                    (''Dimensions'', TList [TInt 2]), (''Data'', TArray Tc_b [1, 255])]
              ''DataType'' = Some (TInt k))
   \<and> (\<exists>dd. ndarray_to_imagedatadict \<lparr>dtype = Int8, byteorder = NativeOrder, shape = [2], buf = [1, 255]\<rparr> = Inr dd
         \<and> map_of dd ''DataType'' = Some (TInt 6))"
proof -
  have e: "ndarray_to_imagedatadict \<lparr>dtype = Int8, byteorder = NativeOrder, shape = [2], buf = [1, 255]\<rparr>
     = Inr [(''DataType'', TInt 6), (''PixelDepth'', TInt 1), (''Dimensions'', TList [TInt 2]),
            (''Data'', TArray Tc_b [1, 255])]"
    by (simp add: ndarray_to_imagedatadict_def dm_image_dtypes_def np_to_structarray_map_def
          structarray_to_np_map_def native_items_def)
  have t: "dtype \<lparr>dtype = Int8, byteorder = NativeOrder, shape = [2], buf = [1, 255]\<rparr> = Int8" by simp
  from reverse_lookup_first_match
         [of Int8 6 StopIteration "\<lparr>dtype = Int8, byteorder = NativeOrder, shape = [2], buf = [1, 255]\<rparr>"
             "[(''DataType'', TInt 6), (''PixelDepth'', TInt 1), (''Dimensions'', TList [TInt 2]),
               (''Data'', TArray Tc_b [1, 255])]"]
       e t
  show ?thesis by simp
qed


section \<open>Arrays to tags and back\<close>

lemma shape_items_ints: "shape_items (map (\<lambda>d. TInt (int d)) ds) = Inr (map int ds)"
  by (induction ds) simp_all

lemma count_list_map_int: "count_list (map int ds) (- 1) = 0"
  by (induction ds) simp_all

lemma prod_list_map_int: "prod_list (map int ds) = int (prod_list ds)"
  by (induction ds) simp_all

lemma np_reshape_nat:
  "prod_list (shape a) = prod_list ds \<Longrightarrow> np_reshape a (map int ds) = Inr (a\<lparr>shape := ds\<rparr>)"
  by (simp add: np_reshape_def count_list_map_int prod_list_map_int comp_def)

lemma np_itemsize_pos: "0 < np_itemsize t"
  by (cases t) simp_all

text \<open>Reversing the bytes of each element keeps the number of bytes.\<close>

lemma chunks_length:
  assumes "c \<in> set (chunks n xs)"
  shows "length c = n"
proof -
  from assms obtain i where i: "i < length xs div n" and c: "c = take n (drop (i * n) xs)"
    by (auto simp: chunks_def)
  from i have "Suc i \<le> length xs div n" by simp
  then have "Suc i * n \<le> (length xs div n) * n" by (rule mult_le_mono1)
  also have "\<dots> \<le> length xs" by simp
  finally have "i * n + n \<le> length xs" by simp
  with c show ?thesis by simp
qed

lemma length_concat_rev_chunks:
  "length (concat (map rev (chunks n xs))) = n * (length xs div n)"
proof -
  have "length (concat (map rev (chunks n xs))) = sum_list (map length (chunks n xs))"
    by (simp add: length_concat comp_def)
  also have "map length (chunks n xs) = map (\<lambda>c. n) (chunks n xs)"
    by (simp add: chunks_length)
  also have "sum_list (map (\<lambda>c. n) (chunks n xs)) = n * length (chunks n xs)"
    by (simp add: sum_list_triv)
  also have "length (chunks n xs) = length xs div n"
    by (simp add: chunks_def)
  finally show ?thesis .
qed

lemma native_items_length:
  assumes "wf_ndarray a"
  shows "length (native_items a) = length (buf a)"
  using assms np_itemsize_pos [of "dtype a"]
  by (simp add: native_items_def wf_ndarray_def length_concat_rev_chunks)

lemma native_items_native: "byteorder a = NativeOrder \<Longrightarrow> native_items a = buf a"
  by (simp add: native_items_def)

text \<open>
  Reading back what \<^verbatim>\<open>ndarray_to_imagedatadict\<close> wrote, also from a dict that has more
  entries than the four that \<^verbatim>\<open>imagedatadict_to_ndarray\<close> reads: the result has the element
  type and the shape of the array, the byte order of the platform, and the buffer that
  was stored.
\<close>

lemma imagedatadict_readback:
  assumes wf: "wf_ndarray a"
    and dd: "ndarray_to_imagedatadict a = Inr dd"
    and d: "map_of kvs ''Data'' = map_of dd ''Data''"
    and t: "map_of kvs ''DataType'' = map_of dd ''DataType''"
    and p: "map_of kvs ''PixelDepth'' = map_of dd ''PixelDepth''"
    and s: "map_of kvs ''Dimensions'' = map_of dd ''Dimensions''"
  shows "imagedatadict_to_ndarray (TDict kvs)
     = Inr \<lparr>dtype = dtype a, byteorder = NativeOrder, shape = shape a,
            buf = (if dtype a = Complex64 \<or> dtype a = Complex128 then buf a
                   else native_items a)\<rparr>"
proof -
  from ndarray_to_imagedatadict_Inr [OF dd] obtain c
    where c: "first_code dm_image_dtypes (dtype a) = Inr c"
      and e: "dd = [(''DataType'', TInt c),
                   (''PixelDepth'', TInt (int (np_itemsize (dtype a)))),
                   (''Dimensions'', TList (map (\<lambda>d. TInt (int d)) (rev (shape a)))),
                   (''Data'',
                      case map_of np_to_structarray_map (dtype a) of
                        Some types \<Rightarrow> TStruct types (buf a)
                      | None \<Rightarrow> (case dtype_char (dtype a) of
                                   Some tc \<Rightarrow> TArray tc (native_items a) | None \<Rightarrow> TNone))]"
    by blast
  from wf have n: "length (buf a) div np_itemsize (dtype a) = prod_list (shape a)"
    and m: "length (buf a) mod np_itemsize (dtype a) = 0"
    using np_itemsize_pos [of "dtype a"] by (simp_all add: wf_ndarray_def)
  from n native_items_length [OF wf]
  have n': "length (native_items a) div np_itemsize (dtype a) = prod_list (shape a)"
    by simp
  have r: "rev (map (\<lambda>d. TInt (int d)) (rev (shape a))) = map (\<lambda>d. TInt (int d)) (shape a)"
    by (simp add: rev_map)
  from d t p s e
  have d': "map_of kvs ''Data'' = Some (case map_of np_to_structarray_map (dtype a) of
                        Some types \<Rightarrow> TStruct types (buf a)
                      | None \<Rightarrow> (case dtype_char (dtype a) of
                                   Some tc \<Rightarrow> TArray tc (native_items a) | None \<Rightarrow> TNone))"
    and t': "map_of kvs ''DataType'' = Some (TInt c)"
    and p': "map_of kvs ''PixelDepth'' = Some (TInt (int (np_itemsize (dtype a))))"
    and s': "map_of kvs ''Dimensions'' = Some (TList (map (\<lambda>d. TInt (int d)) (rev (shape a))))"
    by simp_all
  from supported_cases [OF c] show ?thesis
    using d' t' p' s' n n' m
    by (elim disjE conjE)
       (simp_all add: imagedatadict_to_ndarray_def data_to_im_def np_to_structarray_map_def
          structarray_to_np_map_def dm_image_dtypes_getitem_def dm_image_dtypes_def
          np_asarray_def np_frombuffer_def r shape_items_ints np_reshape_nat)
qed

text \<open>For an array in the byte order of the platform, that is the array itself.\<close>

lemma imagedatadict_roundtrip:
  assumes wf: "wf_ndarray a"
    and nat: "byteorder a = NativeOrder"
    and dd: "ndarray_to_imagedatadict a = Inr dd"
    and d: "map_of kvs ''Data'' = map_of dd ''Data''"
    and t: "map_of kvs ''DataType'' = map_of dd ''DataType''"
    and p: "map_of kvs ''PixelDepth'' = map_of dd ''PixelDepth''"
    and s: "map_of kvs ''Dimensions'' = map_of dd ''Dimensions''"
  shows "imagedatadict_to_ndarray (TDict kvs) = Inr a"
proof -
  from nat have "\<lparr>dtype = dtype a, byteorder = NativeOrder, shape = shape a,
            buf = (if dtype a = Complex64 \<or> dtype a = Complex128 then buf a
                   else native_items a)\<rparr> = a"
    by (simp add: native_items_native)
  with imagedatadict_readback [OF wf dd d t p s] show ?thesis by simp
qed

text \<open>
  C2. For an array of a supported element type and of shape \<open>(d0, ..., d(n-1))\<close>,
  \<^verbatim>\<open>ndarray_to_imagedatadict\<close> stores the reversed shape under \<open>Dimensions\<close> and the elements
  of the array, in their own order, under \<open>Data\<close>: the buffer of the array itself when the
  array has the byte order of the platform or is complex, and otherwise the elements one
  after the other, each with its bytes reversed. \<^verbatim>\<open>imagedatadict_to_ndarray\<close> applied to that
  node returns an array of the same shape and element type; for an array in the byte
  order of the platform it returns the array itself: the same shape, element type and
  buffer.
\<close>

theorem dimensions_law:
  assumes "dtype a \<in> supported_dtypes"
  shows "\<exists>dd. ndarray_to_imagedatadict a = Inr dd
      \<and> map_of dd ''Dimensions'' = Some (TList (map (\<lambda>d. TInt (int d)) (rev (shape a))))
      \<and> ((\<exists>tc. map_of dd ''Data'' = Some (TArray tc (native_items a)))
          \<or> (\<exists>types. map_of dd ''Data'' = Some (TStruct types (buf a))))
      \<and> (byteorder a = NativeOrder \<longrightarrow> native_items a = buf a)
      \<and> (byteorder a = BigEndian \<longrightarrow>
            native_items a = concat (map rev (chunks (np_itemsize (dtype a)) (buf a))))
      \<and> (wf_ndarray a \<longrightarrow>
            (\<exists>r. imagedatadict_to_ndarray (TDict dd) = Inr r
                \<and> shape r = shape a \<and> dtype r = dtype a)
          \<and> (byteorder a = NativeOrder \<longrightarrow> imagedatadict_to_ndarray (TDict dd) = Inr a))"
proof -
  from supported_imagedatadict [OF assms] obtain dd
    where dd: "ndarray_to_imagedatadict a = Inr dd" by blast
  from ndarray_to_imagedatadict_Inr [OF dd] obtain c
    where c: "first_code dm_image_dtypes (dtype a) = Inr c"
      and e: "dd = [(''DataType'', TInt c),
                   (''PixelDepth'', TInt (int (np_itemsize (dtype a)))),
                   (''Dimensions'', TList (map (\<lambda>d. TInt (int d)) (rev (shape a)))),
                   (''Data'',
                      case map_of np_to_structarray_map (dtype a) of
                        Some types \<Rightarrow> TStruct types (buf a)
                      | None \<Rightarrow> (case dtype_char (dtype a) of
                                   Some tc \<Rightarrow> TArray tc (native_items a) | None \<Rightarrow> TNone))]"
    by blast
  from e have dims: "map_of dd ''Dimensions''
      = Some (TList (map (\<lambda>d. TInt (int d)) (rev (shape a))))"
    by simp
  from supported_cases [OF c] e
  have data: "(\<exists>tc. map_of dd ''Data'' = Some (TArray tc (native_items a)))
          \<or> (\<exists>types. map_of dd ''Data'' = Some (TStruct types (buf a)))"
    by (elim disjE conjE)
       (simp_all add: np_to_structarray_map_def structarray_to_np_map_def)
  have n1: "native_items a = buf a" if "byteorder a = NativeOrder"
    using that by (rule native_items_native)
  have n2: "native_items a = concat (map rev (chunks (np_itemsize (dtype a)) (buf a)))"
    if "byteorder a = BigEndian"
    using that by (simp add: native_items_def)
  have rb: "\<exists>r. imagedatadict_to_ndarray (TDict dd) = Inr r
                \<and> shape r = shape a \<and> dtype r = dtype a" if "wf_ndarray a"
    using imagedatadict_readback [OF that dd] by simp
  have rt: "imagedatadict_to_ndarray (TDict dd) = Inr a"
    if "wf_ndarray a" "byteorder a = NativeOrder"
    using imagedatadict_roundtrip [OF that dd] by simp
  from dd dims data n1 n2 rb rt show ?thesis by blast
qed

theorem dimensions_law_witness:
  "dtype \<lparr>dtype = Int16, byteorder = NativeOrder, shape = [2, 1, 3],
          buf = [1, 0, 2, 0, 3, 0, 4, 0, 5, 0, 6, 0]\<rparr>
      \<in> supported_dtypes
   \<and> wf_ndarray \<lparr>dtype = Int16, byteorder = NativeOrder, shape = [2, 1, 3],
                 buf = [1, 0, 2, 0, 3, 0, 4, 0, 5, 0, 6, 0]\<rparr>
   \<and> (\<exists>dd. ndarray_to_imagedatadict
              \<lparr>dtype = Int16, byteorder = NativeOrder, shape = [2, 1, 3],
                buf = [1, 0, 2, 0, 3, 0, 4, 0, 5, 0, 6, 0]\<rparr>
            = Inr dd
        \<and> map_of dd ''Dimensions'' = Some (TList [TInt 3, TInt 1, TInt 2])
        \<and> imagedatadict_to_ndarray (TDict dd)
            = Inr \<lparr>dtype = Int16, byteorder = NativeOrder, shape = [2, 1, 3],
                   buf = [1, 0, 2, 0, 3, 0, 4, 0, 5, 0, 6, 0]\<rparr>)"
proof -
  have s: "dtype \<lparr>dtype = Int16, byteorder = NativeOrder, shape = [2, 1, 3],
                  buf = [1, 0, 2, 0, 3, 0, 4, 0, 5, 0, 6, 0]\<rparr>
      \<in> supported_dtypes"
    by (simp add: supported_dtypes_def dm_image_dtypes_def)
  have w: "wf_ndarray
      \<lparr>dtype = Int16, byteorder = NativeOrder, shape = [2, 1, 3],
        buf = [1, 0, 2, 0, 3, 0, 4, 0, 5, 0, 6, 0]\<rparr>"
    by (simp add: wf_ndarray_def)
  from dimensions_law [OF s] w s show ?thesis by auto
qed



section \<open>The consistency checks\<close>

text \<open>
  C5 (as stated, the claim fails on the code). A node whose \<open>PixelDepth\<close> differs from the
  item size of the element type of its \<open>DataType\<close> need not fail with PixelDepthMismatch:
  here \<open>DataType\<close> is 1 (int16, 2 bytes), \<open>PixelDepth\<close> is 4 and the data are one float32,
  and the assertion on the element type, which comes first, fails.
\<close>

theorem pixel_depth_mismatch_counterexample:
  "getitem_key (TDict [(''Data'', TArray Tc_f [0, 0, 128, 63]), (''DataType'', TInt 1),
                       (''PixelDepth'', TInt 4), (''Dimensions'', TList [TInt 1])])
       ''PixelDepth'' = Inr (TInt 4)
   \<and> dm_image_dtypes_getitem (TInt 1) = Inr (''int16'', Int16)
   \<and> \<not> py_eq_int (TInt 4) (int (np_itemsize Int16))
   \<and> imagedatadict_to_ndarray
        (TDict [(''Data'', TArray Tc_f [0, 0, 128, 63]), (''DataType'', TInt 1),
                (''PixelDepth'', TInt 4), (''Dimensions'', TList [TInt 1])])
       = Inl TypeMismatch
   \<and> imagedatadict_to_ndarray
        (TDict [(''Data'', TArray Tc_f [0, 0, 128, 63]), (''DataType'', TInt 1),
                (''PixelDepth'', TInt 4), (''Dimensions'', TList [TInt 1])])
       \<noteq> Inl PixelDepthMismatch"
  by (simp add: imagedatadict_to_ndarray_def data_to_im_def dm_image_dtypes_getitem_def
        dm_image_dtypes_def np_asarray_def)

lemma getitem_key_Inl: "getitem_key t k = Inl e \<Longrightarrow> e = KeyError \<or> e = TypeError"
  by (cases t) (auto split: option.splits)

lemma data_to_im_Inl: "data_to_im arr = Inl e \<Longrightarrow> e = KeyError \<or> e = ValueError"
  by (cases arr)
     (auto simp: data_to_im_def np_frombuffer_def ebind_eq_Inl_iff split: option.splits if_splits)

text \<open>
  C5, amended. Let the node declare a \<open>DataType\<close> of the table and a \<open>PixelDepth\<close> that is not
  the item size of the element type of that code. Then \<^verbatim>\<open>imagedatadict_to_ndarray\<close> fails
  and returns no array, and \<^verbatim>\<open>load_image\<close> returns nothing for an entry with such a node.
  The failure is PixelDepthMismatch exactly when the data decode to an array of the
  element type of the code. Otherwise an earlier step fails first, with its own error:
  the lookup of \<open>Data\<close>, the decoding of the data, the access to the element type of data
  that are neither an array nor a structarray (AttributeError), or the assertion on the
  element type (TypeMismatch) when the data decode to another element type.
\<close>

theorem pixel_depth_mismatch_fails:
  assumes dt: "getitem_key imdict ''DataType'' = Inr code"
    and en: "dm_image_dtypes_getitem code = Inr entry"
    and pd: "getitem_key imdict ''PixelDepth'' = Inr depth"
    and ne: "\<not> py_eq_int depth (int (np_itemsize (snd entry)))"
  shows "(\<exists>e. imagedatadict_to_ndarray imdict = Inl e)
     \<and> (imagedatadict_to_ndarray imdict = Inl PixelDepthMismatch \<longleftrightarrow>
          (\<exists>arr a. getitem_key imdict ''Data'' = Inr arr \<and> data_to_im arr = Inr (Some a)
              \<and> dtype a = snd entry))
     \<and> (\<forall>e. getitem_key imdict ''Data'' = Inl e \<longrightarrow> imagedatadict_to_ndarray imdict = Inl e)
     \<and> (\<forall>arr e. getitem_key imdict ''Data'' = Inr arr \<and> data_to_im arr = Inl e
           \<longrightarrow> imagedatadict_to_ndarray imdict = Inl e)
     \<and> (\<forall>arr. getitem_key imdict ''Data'' = Inr arr \<and> data_to_im arr = Inr None
           \<longrightarrow> imagedatadict_to_ndarray imdict = Inl AttributeError)
     \<and> (\<forall>arr a. getitem_key imdict ''Data'' = Inr arr \<and> data_to_im arr = Inr (Some a)
             \<and> dtype a \<noteq> snd entry
           \<longrightarrow> imagedatadict_to_ndarray imdict = Inl TypeMismatch)
     \<and> (\<forall>kvs. map_of kvs ''ImageData'' = Some imdict
           \<longrightarrow> (\<exists>e. load_image_tags lib (TDict kvs) = Inl e))"
proof -
  have c1: "imagedatadict_to_ndarray imdict = Inl e"
    if "getitem_key imdict ''Data'' = Inl e" for e
    using that by (simp add: imagedatadict_to_ndarray_def)
  have c2: "imagedatadict_to_ndarray imdict = Inl e"
    if "getitem_key imdict ''Data'' = Inr arr" "data_to_im arr = Inl e" for arr e
    using that by (simp add: imagedatadict_to_ndarray_def)
  have c3: "imagedatadict_to_ndarray imdict = Inl AttributeError"
    if "getitem_key imdict ''Data'' = Inr arr" "data_to_im arr = Inr None" for arr
    using that dt en by (simp add: imagedatadict_to_ndarray_def)
  have c4: "imagedatadict_to_ndarray imdict = Inl TypeMismatch"
    if "getitem_key imdict ''Data'' = Inr arr" "data_to_im arr = Inr (Some a)"
       "dtype a \<noteq> snd entry" for arr a
    using that dt en by (auto simp: imagedatadict_to_ndarray_def)
  have c5: "imagedatadict_to_ndarray imdict = Inl PixelDepthMismatch"
    if "getitem_key imdict ''Data'' = Inr arr" "data_to_im arr = Inr (Some a)"
       "dtype a = snd entry" for arr a
    using that dt en pd ne by (simp add: imagedatadict_to_ndarray_def)
  have fails: "\<exists>e. imagedatadict_to_ndarray imdict = Inl e"
  proof (cases "getitem_key imdict ''Data''")
    case (Inl e)
    with c1 show ?thesis by blast
  next
    case arr: (Inr arr)
    show ?thesis
    proof (cases "data_to_im arr")
      case (Inl e)
      with arr c2 show ?thesis by blast
    next
      case im: (Inr im)
      show ?thesis
      proof (cases im)
        case None
        with arr im c3 show ?thesis by blast
      next
        case (Some a)
        with arr im c4 [of arr a] c5 [of arr a] show ?thesis
          by (cases "dtype a = snd entry") auto
      qed
    qed
  qed
  have only: "\<exists>arr a. getitem_key imdict ''Data'' = Inr arr \<and> data_to_im arr = Inr (Some a)
              \<and> dtype a = snd entry"
    if r: "imagedatadict_to_ndarray imdict = Inl PixelDepthMismatch"
  proof (cases "getitem_key imdict ''Data''")
    case (Inl e)
    with c1 [of e] r getitem_key_Inl [of imdict "''Data''" e] show ?thesis by auto
  next
    case arr: (Inr arr)
    show ?thesis
    proof (cases "data_to_im arr")
      case (Inl e)
      with arr c2 [of arr e] r data_to_im_Inl [of arr e] show ?thesis by auto
    next
      case im: (Inr im)
      show ?thesis
      proof (cases im)
        case None
        with arr im c3 [of arr] r show ?thesis by auto
      next
        case (Some a)
        with arr im c4 [of arr a] r show ?thesis
          by (cases "dtype a = snd entry") auto
      qed
    qed
  qed
  have load: "\<exists>e. load_image_tags lib (TDict kvs) = Inl e"
    if "map_of kvs ''ImageData'' = Some imdict" for kvs
    using that fails by (auto simp: load_image_tags_def)
  from fails only c1 c2 c3 c4 c5 load show ?thesis by blast
qed

text \<open>
  The witness: a node of int16 data with \<open>PixelDepth\<close> 4, which fails in the assertion on
  the item size, and a node of float32 data with \<open>DataType\<close> 1 (int16) and \<open>PixelDepth\<close> 8,
  which fails in the assertion on the element type.
\<close>

theorem pixel_depth_mismatch_fails_witness:
  "getitem_key (TDict [(''Data'', TArray Tc_h [1, 0, 2, 0]), (''DataType'', TInt 1),
                       (''PixelDepth'', TInt 4), (''Dimensions'', TList [TInt 2])])
       ''DataType'' = Inr (TInt 1)
   \<and> dm_image_dtypes_getitem (TInt 1) = Inr (''int16'', Int16)
   \<and> getitem_key (TDict [(''Data'', TArray Tc_h [1, 0, 2, 0]), (''DataType'', TInt 1),
                       (''PixelDepth'', TInt 4), (''Dimensions'', TList [TInt 2])])
       ''PixelDepth'' = Inr (TInt 4)
   \<and> \<not> py_eq_int (TInt 4) (int (np_itemsize (snd (''int16'', Int16))))
   \<and> data_to_im (TArray Tc_h [1, 0, 2, 0])
       = Inr (Some \<lparr>dtype = Int16, byteorder = NativeOrder, shape = [2], buf = [1, 0, 2, 0]\<rparr>)
   \<and> imagedatadict_to_ndarray
        (TDict [(''Data'', TArray Tc_h [1, 0, 2, 0]), (''DataType'', TInt 1),
                (''PixelDepth'', TInt 4), (''Dimensions'', TList [TInt 2])])
       = Inl PixelDepthMismatch
   \<and> (\<exists>e. load_image_tags
             \<lparr>float_of_int = (\<lambda>n. Inl ValueError), float_of_str = (\<lambda>s. Inl ValueError)\<rparr>
             (TDict [(''ImageData'',
                TDict [(''Data'', TArray Tc_h [1, 0, 2, 0]), (''DataType'', TInt 1),
                       (''PixelDepth'', TInt 4), (''Dimensions'', TList [TInt 2])])])
           = Inl e)
   \<and> \<not> py_eq_int (TInt 8) (int (np_itemsize (snd (''int16'', Int16))))
   \<and> data_to_im (TArray Tc_f [0, 0, 128, 63])
       = Inr (Some \<lparr>dtype = Float32, byteorder = NativeOrder, shape = [1],
                     buf = [0, 0, 128, 63]\<rparr>)
   \<and> imagedatadict_to_ndarray
        (TDict [(''Data'', TArray Tc_f [0, 0, 128, 63]), (''DataType'', TInt 1),
                (''PixelDepth'', TInt 8), (''Dimensions'', TList [TInt 1])])
       = Inl TypeMismatch"
proof -
  let ?lib = "\<lparr>float_of_int = (\<lambda>n. Inl ValueError), float_of_str = (\<lambda>s. Inl ValueError)\<rparr>"
  let ?n1 = "TDict [(''Data'', TArray Tc_h [1, 0, 2, 0]), (''DataType'', TInt 1),
                       (''PixelDepth'', TInt 4), (''Dimensions'', TList [TInt 2])]"
  let ?n2 = "TDict [(''Data'', TArray Tc_f [0, 0, 128, 63]), (''DataType'', TInt 1),
                (''PixelDepth'', TInt 8), (''Dimensions'', TList [TInt 1])]"
  have dt: "getitem_key ?n1 ''DataType'' = Inr (TInt 1)" by simp
  have en: "dm_image_dtypes_getitem (TInt 1) = Inr (''int16'', Int16)"
    by (simp add: dm_image_dtypes_getitem_def dm_image_dtypes_def)
  have pd: "getitem_key ?n1 ''PixelDepth'' = Inr (TInt 4)" by simp
  have ne: "\<not> py_eq_int (TInt 4) (int (np_itemsize (snd (''int16'', Int16))))" by simp
  have da: "getitem_key ?n1 ''Data'' = Inr (TArray Tc_h [1, 0, 2, 0])" by simp
  have im: "data_to_im (TArray Tc_h [1, 0, 2, 0])
       = Inr (Some \<lparr>dtype = Int16, byteorder = NativeOrder, shape = [2], buf = [1, 0, 2, 0]\<rparr>)"
    by (simp add: data_to_im_def np_asarray_def)
  have g: "map_of [(''ImageData'', ?n1)] ''ImageData'' = Some ?n1" by simp
  note t1 = pixel_depth_mismatch_fails [OF dt en pd ne, of ?lib]
  from t1 da im have r1: "imagedatadict_to_ndarray ?n1 = Inl PixelDepthMismatch"
    by auto
  from t1 g have l1: "\<exists>e. load_image_tags ?lib (TDict [(''ImageData'', ?n1)]) = Inl e"
    by blast
  have dt2: "getitem_key ?n2 ''DataType'' = Inr (TInt 1)" by simp
  have pd2: "getitem_key ?n2 ''PixelDepth'' = Inr (TInt 8)" by simp
  have ne2: "\<not> py_eq_int (TInt 8) (int (np_itemsize (snd (''int16'', Int16))))" by simp
  have da2: "getitem_key ?n2 ''Data'' = Inr (TArray Tc_f [0, 0, 128, 63])" by simp
  have im2: "data_to_im (TArray Tc_f [0, 0, 128, 63])
       = Inr (Some \<lparr>dtype = Float32, byteorder = NativeOrder, shape = [1],
                     buf = [0, 0, 128, 63]\<rparr>)"
    by (simp add: data_to_im_def np_asarray_def)
  note t2 = pixel_depth_mismatch_fails [OF dt2 en pd2 ne2, of ?lib]
  from t2 da2 im2 have r2: "imagedatadict_to_ndarray ?n2 = Inl TypeMismatch"
    by auto
  from dt en pd ne im r1 l1 ne2 im2 r2 show ?thesis by blast
qed

section \<open>The document that save_image assembles\<close>

text \<open>
  The dict \<open>ret\<close> in full. Only \<^verbatim>\<open>ndarray_to_imagedatadict\<close> can fail; the calibrations are
  appended to its four entries.
\<close>

lemma save_image_ret_Inr:
  assumes "ndarray_to_imagedatadict data = Inr dd"
  shows "save_image_ret data cals ic meta =
     Inr (TDict
       [(''ImageList'', TList [TDict [(''ImageData'', TDict (dd @
           (if (cals \<noteq> [] \<and> length cals = length (shape data)) \<or> ic \<noteq> None
            then [(''Calibrations'', TDict (
                   (if cals \<noteq> [] \<and> length cals = length (shape data)
                    then [(''Dimension'', TList (map dimension_dict (rev cals)))] else []) @
                   (case ic of
                      None \<Rightarrow> []
                    | Some c \<Rightarrow> [(''Brightness'',
                          TDict [(''Origin'', TFloat (offset c)), (''Scale'', TFloat (scale c)),
                                 (''Units'', TStr (units c))])])))]
            else []))),
          (''ImageTags'', meta)]]),
        (''ImageSourceList'',
           TList [TDict [(''ClassName'', TStr (map of_char ''ImageSource:Simple'')),
                         (''Id'', TList [TInt 0]), (''ImageRef'', TInt 0)]]),
        (''DocumentObjectList'',
           TList [TDict [(''ImageSource'', TInt 0), (''AnnotationType'', TInt 20)]]),
        (''Image Behavior'', TDict [(''ViewDisplayID'', TInt 8)]),
        (''InImageMode'', TInt 1)])"
proof -
  from ndarray_to_imagedatadict_Inr [OF assms] obtain c x
    where e: "dd = [(''DataType'', TInt c),
                   (''PixelDepth'', TInt (int (np_itemsize (dtype data)))),
                   (''Dimensions'', TList (map (\<lambda>d. TInt (int d)) (rev (shape data)))),
                   (''Data'', x)]"
    by blast
  show ?thesis
  proof (cases ic)
    case None
    with assms e show ?thesis
      by (simp add: save_image_ret_def add_dimension_calibrations_def setdefault_def)
  next
    case (Some b)
    with assms e show ?thesis
      by (simp add: save_image_ret_def add_dimension_calibrations_def add_brightness_def
            setdefault_def)
  qed
qed

lemma save_image_ret_Inl:
  "save_image_ret data cals ic meta = Inl e \<longleftrightarrow> e = StopIteration \<and> dtype data \<notin> supported_dtypes"
proof (cases "ndarray_to_imagedatadict data")
  case (Inl e')
  then have "save_image_ret data cals ic meta = Inl e'"
    by (simp add: save_image_ret_def)
  with Inl ndarray_to_imagedatadict_Inl [of data e'] ndarray_to_imagedatadict_Inl [of data e]
  show ?thesis by auto
next
  case (Inr dd)
  with ndarray_to_imagedatadict_Inl [of data StopIteration]
  have "dtype data \<in> supported_dtypes" by auto
  with save_image_ret_Inr [OF Inr, of cals ic meta] show ?thesis by simp
qed

text \<open>
  C7. \<^verbatim>\<open>save_image\<close> raises only when the element type of the array is not in the table,
  whatever the calibrations are. In the document it writes, the \<open>Dimension\<close> list is the
  reversed list of the calibrations when there is one calibration for each axis (and at
  least one), and is absent otherwise: a list of another length is dropped as the empty
  list is.
\<close>

theorem calibration_count_mismatch:
  "(save_image_ret data cals ic meta = Inl e
      \<longleftrightarrow> e = StopIteration \<and> dtype data \<notin> supported_dtypes)
   \<and> (save_image_ret data cals ic meta = Inr ret \<longrightarrow>
        lookup_path ret [Key ''ImageList'', Index 0, Key ''ImageData'', Key ''Calibrations'',
                         Key ''Dimension'']
          = (if cals \<noteq> [] \<and> length cals = length (shape data)
             then Some (TList (map dimension_dict (rev cals))) else None))
   \<and> (dtype data \<in> supported_dtypes \<and> d s = Some docs \<longrightarrow>
        (\<exists>ret. save_image_ret data cals ic meta = Inr ret
           \<and> save_image data cals ic meta (Stream s) d = (Inr (), d(s \<mapsto> docs @ [ret]))))
   \<and> (cals = [] \<or> length cals \<noteq> length (shape data) \<longrightarrow>
        save_image_ret data cals ic meta = save_image_ret data [] ic meta)"
proof (intro conjI impI)
  show "save_image_ret data cals ic meta = Inl e
      \<longleftrightarrow> e = StopIteration \<and> dtype data \<notin> supported_dtypes"
    by (rule save_image_ret_Inl)
next
  assume r: "save_image_ret data cals ic meta = Inr ret"
  then obtain dd where dd: "ndarray_to_imagedatadict data = Inr dd"
    by (auto simp: save_image_ret_def ebind_eq_Inr_iff)
  from ndarray_to_imagedatadict_Inr [OF dd] obtain c x
    where e: "dd = [(''DataType'', TInt c),
                   (''PixelDepth'', TInt (int (np_itemsize (dtype data)))),
                   (''Dimensions'', TList (map (\<lambda>d. TInt (int d)) (rev (shape data)))),
                   (''Data'', x)]"
    by blast
  from r save_image_ret_Inr [OF dd, of cals ic meta] e
  show "lookup_path ret [Key ''ImageList'', Index 0, Key ''ImageData'', Key ''Calibrations'',
                         Key ''Dimension'']
          = (if cals \<noteq> [] \<and> length cals = length (shape data)
             then Some (TList (map dimension_dict (rev cals))) else None)"
    by (cases ic) auto
next
  assume a: "dtype data \<in> supported_dtypes \<and> d s = Some docs"
  with supported_imagedatadict [of data] obtain dd
    where dd: "ndarray_to_imagedatadict data = Inr dd" by blast
  from save_image_ret_Inr [OF dd, of cals ic meta] a
  show "\<exists>ret. save_image_ret data cals ic meta = Inr ret
           \<and> save_image data cals ic meta (Stream s) d = (Inr (), d(s \<mapsto> docs @ [ret]))"
    by (simp add: save_image_def parse_dm_header_write_def)
next
  assume a: "cals = [] \<or> length cals \<noteq> length (shape data)"
  show "save_image_ret data cals ic meta = save_image_ret data [] ic meta"
  proof (cases "ndarray_to_imagedatadict data")
    case (Inl e')
    then show ?thesis by (simp add: save_image_ret_def)
  next
    case (Inr dd)
    from save_image_ret_Inr [OF Inr, of cals ic meta] save_image_ret_Inr [OF Inr, of "[]" ic meta] a
    show ?thesis by auto
  qed
qed

text \<open>The witness: a 1 by 2 array saved with a single calibration, to an empty stream.\<close>

theorem calibration_count_mismatch_witness:
  "dtype \<lparr>dtype = Int8, byteorder = NativeOrder, shape = [1, 2], buf = [7, 9]\<rparr> \<in> supported_dtypes
   \<and> length [\<lparr>offset = 0, scale = 0x3FF0000000000000, units = [110, 109]\<rparr>]
        \<noteq> length (shape \<lparr>dtype = Int8, byteorder = NativeOrder, shape = [1, 2], buf = [7, 9]\<rparr>)
   \<and> (\<exists>ret. save_image_ret \<lparr>dtype = Int8, byteorder = NativeOrder, shape = [1, 2], buf = [7, 9]\<rparr>
               [\<lparr>offset = 0, scale = 0x3FF0000000000000, units = [110, 109]\<rparr>] None (TDict [])
             = Inr ret
        \<and> lookup_path ret [Key ''ImageList'', Index 0, Key ''ImageData''] =
             Some (TDict [(''DataType'', TInt 6), (''PixelDepth'', TInt 1),
                          (''Dimensions'', TList [TInt 2, TInt 1]),
                          (''Data'', TArray Tc_b [7, 9])])
        \<and> lookup_path ret [Key ''ImageList'', Index 0, Key ''ImageData'', Key ''Calibrations'',
                            Key ''Dimension''] = None
        \<and> save_image \<lparr>dtype = Int8, byteorder = NativeOrder, shape = [1, 2], buf = [7, 9]\<rparr>
               [\<lparr>offset = 0, scale = 0x3FF0000000000000, units = [110, 109]\<rparr>] None (TDict [])
               (Stream ''f'') [''f'' \<mapsto> []]
             = (Inr (), [''f'' \<mapsto> [ret]]))"
proof -
  have s: "dtype \<lparr>dtype = Int8, byteorder = NativeOrder, shape = [1, 2], buf = [7, 9]\<rparr> \<in> supported_dtypes
             \<and> [''f'' \<mapsto> []] ''f'' = Some ([] :: tag list)"
    by (simp add: supported_dtypes_def dm_image_dtypes_def)
  have dd: "ndarray_to_imagedatadict \<lparr>dtype = Int8, byteorder = NativeOrder, shape = [1, 2], buf = [7, 9]\<rparr>
      = Inr [(''DataType'', TInt 6), (''PixelDepth'', TInt 1),
             (''Dimensions'', TList [TInt 2, TInt 1]), (''Data'', TArray Tc_b [7, 9])]"
    by (simp add: ndarray_to_imagedatadict_def dm_image_dtypes_def np_to_structarray_map_def
          structarray_to_np_map_def native_items_def)
  let ?ret = "TDict
       [(''ImageList'', TList [TDict [(''ImageData'',
            TDict [(''DataType'', TInt 6), (''PixelDepth'', TInt 1),
                   (''Dimensions'', TList [TInt 2, TInt 1]), (''Data'', TArray Tc_b [7, 9])]),
          (''ImageTags'', TDict [])]]),
        (''ImageSourceList'',
           TList [TDict [(''ClassName'', TStr (map of_char ''ImageSource:Simple'')),
                         (''Id'', TList [TInt 0]), (''ImageRef'', TInt 0)]]),
        (''DocumentObjectList'',
           TList [TDict [(''ImageSource'', TInt 0), (''AnnotationType'', TInt 20)]]),
        (''Image Behavior'', TDict [(''ViewDisplayID'', TInt 8)]),
        (''InImageMode'', TInt 1)]"
  note r = save_image_ret_Inr [OF dd,
      of "[\<lparr>offset = 0, scale = 0x3FF0000000000000, units = [110, 109]\<rparr>]" None "TDict []"]
  have r': "save_image_ret \<lparr>dtype = Int8, byteorder = NativeOrder, shape = [1, 2], buf = [7, 9]\<rparr>
               [\<lparr>offset = 0, scale = 0x3FF0000000000000, units = [110, 109]\<rparr>] None (TDict [])
             = Inr ?ret"
    using r by simp
  from calibration_count_mismatch
         [of "\<lparr>dtype = Int8, byteorder = NativeOrder, shape = [1, 2], buf = [7, 9]\<rparr>"
             "[\<lparr>offset = 0, scale = 0x3FF0000000000000, units = [110, 109]\<rparr>]" None "TDict []"
             StopIteration ?ret "[''f'' \<mapsto> []]" "''f''" "[]"]
       s r'
  show ?thesis by auto
qed

section \<open>Saving and loading again\<close>

lemma fix_strings_items_append:
  "fix_strings_items (xs @ ys) =
     ebind (fix_strings_items xs) (\<lambda>xs'. ebind (fix_strings_items ys) (\<lambda>ys'. Inr (xs' @ ys')))"
proof (induction xs)
  case Nil
  show ?case by (cases "fix_strings_items ys") simp_all
next
  case (Cons kv xs)
  obtain k v where kv: "kv = (k, v)" by (cases kv) auto
  show ?case
    by (cases "fix_strings v"; cases "fix_strings_items xs"; cases "fix_strings_items ys")
       (simp_all add: kv Cons.IH)
qed

lemma fix_strings_list_ints:
  "fix_strings_list (map (\<lambda>d. TInt (int d)) ds) = Inr (map (\<lambda>d. TInt (int d)) ds)"
  by (induction ds) simp_all

lemma fix_strings_dimension_dict: "fix_strings (dimension_dict c) = Inr (dimension_dict c)"
  by (simp add: dimension_dict_def)

lemma fix_strings_list_dimension_dicts:
  "fix_strings_list (map dimension_dict cs) = Inr (map dimension_dict cs)"
  by (induction cs) (simp_all add: fix_strings_dimension_dict)

lemma load_calibrations_dimension_dicts:
  "load_calibrations (map dimension_dict cs) = Inr (map calibration_tuple cs)"
  by (induction cs) (simp_all add: dimension_dict_def calibration_tuple_def)

lemma load_properties_cong:
  "map_of kvs ''ImageTags'' = map_of kvs' ''ImageTags''
     \<Longrightarrow> load_properties lib (TDict kvs) = load_properties lib (TDict kvs')"
  by (simp add: load_properties_def)

text \<open>
  Loading the document that \<^verbatim>\<open>save_image\<close> assembled. The metadata decide whether
  \<^verbatim>\<open>load_image\<close> returns: \<^verbatim>\<open>fix_strings\<close> must succeed on them, and lines 173 to 180 on
  the result. The array that is returned has the byte order of the platform.
\<close>

lemma load_saved_document:
  assumes wf: "wf_ndarray A"
    and len: "length cals = length (shape A)"
    and ret: "save_image_ret A cals (Some ic) meta = Inr ret"
  shows "load_image_dmtag lib ret =
     ebind (fix_strings meta) (\<lambda>meta'.
     ebind (load_properties lib (TDict [(''ImageTags'', meta')])) (\<lambda>props.
     Inr (\<lparr>dtype = dtype A, byteorder = NativeOrder, shape = shape A,
            buf = (if dtype A = Complex64 \<or> dtype A = Complex128 then buf A
                   else native_items A)\<rparr>,
          map calibration_tuple cals, calibration_tuple ic, TNone, props)))"
proof -
  from ret obtain dd where dd: "ndarray_to_imagedatadict A = Inr dd"
    by (auto simp: save_image_ret_def ebind_eq_Inr_iff)
  from ndarray_to_imagedatadict_Inr [OF dd] obtain c x
    where e: "dd = [(''DataType'', TInt c),
                   (''PixelDepth'', TInt (int (np_itemsize (dtype A)))),
                   (''Dimensions'', TList (map (\<lambda>d. TInt (int d)) (rev (shape A)))),
                   (''Data'', x)]"
    by blast
  define R where "R = \<lparr>dtype = dtype A, byteorder = NativeOrder, shape = shape A,
            buf = (if dtype A = Complex64 \<or> dtype A = Complex128 then buf A
                   else native_items A)\<rparr>"
  define dims where "dims =
     (if cals \<noteq> [] then [(''Dimension'', TList (map dimension_dict (rev cals)))] else [])"
  define bright where "bright =
     TDict [(''Origin'', TFloat (offset ic)), (''Scale'', TFloat (scale ic)),
            (''Units'', TStr (units ic))]"
  define calibs where "calibs = dims @ [(''Brightness'', bright)]"
  define dd' where "dd' = dd @ [(''Calibrations'', TDict calibs)]"
  define rest where "rest =
       [(''ImageSourceList'',
           TList [TDict [(''ClassName'', TStr (map of_char ''ImageSource:Simple'')),
                         (''Id'', TList [TInt 0]), (''ImageRef'', TInt 0)]]),
        (''DocumentObjectList'',
           TList [TDict [(''ImageSource'', TInt 0), (''AnnotationType'', TInt 20)]]),
        (''Image Behavior'', TDict [(''ViewDisplayID'', TInt 8)]),
        (''InImageMode'', TInt 1)]"
  have ret_eq: "ret = TDict ((''ImageList'',
        TList [TDict [(''ImageData'', TDict dd'), (''ImageTags'', meta)]]) # rest)"
    using save_image_ret_Inr [OF dd, of cals "Some ic" meta] ret len
    by (simp add: dd'_def calibs_def dims_def bright_def rest_def)
  have frest: "fix_strings_items rest = Inr rest"
    by (simp add: rest_def)
  have fdims: "fix_strings_items dims = Inr dims"
    by (simp add: dims_def fix_strings_list_dimension_dicts)
  have fcal: "fix_strings_items calibs = Inr calibs"
    by (simp add: calibs_def fix_strings_items_append fdims bright_def)
  have fdd: "fix_strings_items dd = Inr dd"
    by (simp add: e fix_strings_list_ints)
  have fdd': "fix_strings_items dd' = Inr dd'"
    by (simp add: dd'_def fix_strings_items_append fdd fcal)
  have rt: "imagedatadict_to_ndarray (TDict dd') = Inr R"
    unfolding R_def by (rule imagedatadict_readback [OF wf dd]) (simp_all add: dd'_def e)
  have gcal: "map_of dd' ''Calibrations'' = Some (TDict calibs)"
    by (simp add: dd'_def e)
  have gdim: "(case map_of calibs ''Dimension'' of None \<Rightarrow> TList [] | Some v \<Rightarrow> v)
                = TList (map dimension_dict (rev cals))"
    by (simp add: calibs_def dims_def)
  have gbr: "map_of calibs ''Brightness'' = Some bright"
    by (simp add: calibs_def dims_def)
  have bo: "get_default bright ''Origin'' (TFloat 0) = Inr (TFloat (offset ic))"
    and bs: "get_default bright ''Scale'' (TFloat 0x3FF0000000000000) = Inr (TFloat (scale ic))"
    and bu: "get_default bright ''Units'' (TStr []) = Inr (TStr (units ic))"
    by (simp_all add: bright_def)
  have props': "load_properties lib (TDict [(''ImageData'', TDict dd'), (''ImageTags'', m)])
                  = load_properties lib (TDict [(''ImageTags'', m)])" for m
    by (rule load_properties_cong) simp
  have tags: "load_image_tags lib (TDict [(''ImageData'', TDict dd'), (''ImageTags'', m)])
     = ebind (load_properties lib (TDict [(''ImageTags'', m)])) (\<lambda>props.
         Inr (R, map calibration_tuple cals, calibration_tuple ic, TNone, props))" for m
    by (simp add: load_image_tags_def rt gcal gdim gbr bo bs bu
          load_calibrations_dimension_dicts props' rev_map calibration_tuple_def)
  show ?thesis
  proof (cases "fix_strings meta")
    case (Inl err)
    then have "fix_strings ret = Inl err"
      by (simp add: ret_eq fdd')
    with Inl show ?thesis by (simp add: load_image_dmtag_def)
  next
    case (Inr meta')
    then have "fix_strings ret = Inr (TDict ((''ImageList'',
        TList [TDict [(''ImageData'', TDict dd'), (''ImageTags'', meta')]]) # rest))"
      by (simp add: ret_eq fdd' frest)
    with Inr show ?thesis
      by (simp add: load_image_dmtag_def tags R_def)
  qed
qed

text \<open>Saving to an empty stream and loading from it, by the stream or by its path.\<close>

lemma save_then_load:
  assumes "wf_ndarray A" and "dtype A \<in> supported_dtypes"
    and "length cals = length (shape A)" and "d s = Some []"
  shows "\<exists>ret. save_image A cals (Some ic) meta (Stream s) d = (Inr (), d(s \<mapsto> [ret]))
     \<and> load_image lib (Path s) (d(s \<mapsto> [ret])) = load_image lib (Stream s) (d(s \<mapsto> [ret]))
     \<and> load_image lib (Stream s) (d(s \<mapsto> [ret])) =
         ebind (fix_strings meta) (\<lambda>meta'.
         ebind (load_properties lib (TDict [(''ImageTags'', meta')])) (\<lambda>props.
         Inr (\<lparr>dtype = dtype A, byteorder = NativeOrder, shape = shape A,
                buf = (if dtype A = Complex64 \<or> dtype A = Complex128 then buf A
                       else native_items A)\<rparr>,
              map calibration_tuple cals, calibration_tuple ic, TNone, props)))"
proof -
  from supported_imagedatadict [OF assms(2)] obtain dd
    where dd: "ndarray_to_imagedatadict A = Inr dd" by blast
  from save_image_ret_Inr [OF dd, of cals "Some ic" meta] obtain ret
    where ret: "save_image_ret A cals (Some ic) meta = Inr ret" by blast
  from ret assms(4)
  have sv: "save_image A cals (Some ic) meta (Stream s) d = (Inr (), d(s \<mapsto> [ret]))"
    by (simp add: save_image_def parse_dm_header_write_def)
  have s1: "load_image lib (Stream s) (d(s \<mapsto> [ret])) = load_image_dmtag lib ret"
    by (simp add: load_image_def parse_dm_header_def)
  have s2: "load_image lib (Path s) (d(s \<mapsto> [ret])) = load_image_dmtag lib ret"
    by (simp add: load_image_def parse_dm_header_def)
  from sv s1 s2 load_saved_document [OF assms(1) assms(3) ret, of lib]
  show ?thesis by auto
qed

text \<open>
  C1 (as stated, the claim fails on the code). First, an int16 array with one element, 1,
  in big-endian byte order: its element type is in the table, it is saved, and what is
  loaded is an array in the byte order of the platform over other bytes, which is
  another array. Second, the array in the byte order of the platform with metadata
  \<open>None\<close>: it is saved, and \<^verbatim>\<open>load_image\<close> raises AttributeError at line 177.
\<close>

theorem round_trip_counterexample:
  "wf_ndarray \<lparr>dtype = Int16, byteorder = BigEndian, shape = [1], buf = [0, 1]\<rparr>
   \<and> dtype \<lparr>dtype = Int16, byteorder = BigEndian, shape = [1], buf = [0, 1]\<rparr>
        \<in> supported_dtypes
   \<and> fst (save_image \<lparr>dtype = Int16, byteorder = BigEndian, shape = [1], buf = [0, 1]\<rparr>
            [\<lparr>offset = 0, scale = 0x3FF0000000000000, units = [110, 109]\<rparr>]
            (Some \<lparr>offset = 0, scale = 0x4008000000000000, units = [101]\<rparr>)
            (TDict []) (Stream ''f'') [''f'' \<mapsto> []]) = Inr ()
   \<and> load_image
        \<lparr>float_of_int = (\<lambda>n. Inl ValueError), float_of_str = (\<lambda>s. Inl ValueError)\<rparr>
        (Stream ''f'')
        (snd (save_image \<lparr>dtype = Int16, byteorder = BigEndian, shape = [1], buf = [0, 1]\<rparr>
            [\<lparr>offset = 0, scale = 0x3FF0000000000000, units = [110, 109]\<rparr>]
            (Some \<lparr>offset = 0, scale = 0x4008000000000000, units = [101]\<rparr>)
            (TDict []) (Stream ''f'') [''f'' \<mapsto> []]))
      = Inr (\<lparr>dtype = Int16, byteorder = NativeOrder, shape = [1], buf = [1, 0]\<rparr>,
             [(TFloat 0, TFloat 0x3FF0000000000000, TStr [110, 109])],
             (TFloat 0, TFloat 0x4008000000000000, TStr [101]),
             TNone,
             [(''imported_properties'', TDict [])])
   \<and> \<lparr>dtype = Int16, byteorder = NativeOrder, shape = [1], buf = [1, 0]\<rparr>
        \<noteq> \<lparr>dtype = Int16, byteorder = BigEndian, shape = [1], buf = [0, 1]\<rparr>
   \<and> wf_ndarray \<lparr>dtype = Int16, byteorder = NativeOrder, shape = [1], buf = [1, 0]\<rparr>
   \<and> fst (save_image \<lparr>dtype = Int16, byteorder = NativeOrder, shape = [1], buf = [1, 0]\<rparr>
            [\<lparr>offset = 0, scale = 0x3FF0000000000000, units = [110, 109]\<rparr>]
            (Some \<lparr>offset = 0, scale = 0x4008000000000000, units = [101]\<rparr>)
            TNone (Stream ''f'') [''f'' \<mapsto> []]) = Inr ()
   \<and> load_image
        \<lparr>float_of_int = (\<lambda>n. Inl ValueError), float_of_str = (\<lambda>s. Inl ValueError)\<rparr>
        (Stream ''f'')
        (snd (save_image \<lparr>dtype = Int16, byteorder = NativeOrder, shape = [1], buf = [1, 0]\<rparr>
            [\<lparr>offset = 0, scale = 0x3FF0000000000000, units = [110, 109]\<rparr>]
            (Some \<lparr>offset = 0, scale = 0x4008000000000000, units = [101]\<rparr>)
            TNone (Stream ''f'') [''f'' \<mapsto> []]))
      = Inl AttributeError"
proof -
  let ?B = "\<lparr>dtype = Int16, byteorder = BigEndian, shape = [1], buf = [0, 1 :: byte]\<rparr>"
  let ?N = "\<lparr>dtype = Int16, byteorder = NativeOrder, shape = [1], buf = [1, 0 :: byte]\<rparr>"
  let ?cals = "[\<lparr>offset = 0, scale = 0x3FF0000000000000, units = [110, 109]\<rparr>]"
  let ?ic = "\<lparr>offset = 0, scale = 0x4008000000000000, units = [101]\<rparr>"
  let ?lib = "\<lparr>float_of_int = (\<lambda>n. Inl ValueError), float_of_str = (\<lambda>s. Inl ValueError)\<rparr>"
  have wb: "wf_ndarray ?B" and wn: "wf_ndarray ?N"
    by (simp_all add: wf_ndarray_def)
  have sb: "dtype ?B \<in> supported_dtypes" and sn: "dtype ?N \<in> supported_dtypes"
    by (simp_all add: supported_dtypes_def dm_image_dtypes_def)
  have lb: "length ?cals = length (shape ?B)" and ln: "length ?cals = length (shape ?N)"
    by simp_all
  have d: "[''f'' \<mapsto> []] ''f'' = Some ([] :: tag list)" by simp
  have ni: "native_items ?B = [1, 0]"
    by (simp add: native_items_def chunks_def)
  have pe: "load_properties ?lib (TDict [(''ImageTags'', TDict [])])
      = Inr [(''imported_properties'', TDict [])]"
    by (simp add: load_properties_def)
  have pn: "load_properties ?lib (TDict [(''ImageTags'', TNone)]) = Inl AttributeError"
    by (simp add: load_properties_def)
  from save_then_load [where d = "[''f'' \<mapsto> []]" and s = "''f''" and ic = ?ic
         and meta = "TDict []" and lib = ?lib, OF wb sb lb d] ni pe
  have b: "fst (save_image ?B ?cals (Some ?ic) (TDict []) (Stream ''f'') [''f'' \<mapsto> []]) = Inr ()
     \<and> load_image ?lib (Stream ''f'')
          (snd (save_image ?B ?cals (Some ?ic) (TDict []) (Stream ''f'') [''f'' \<mapsto> []]))
        = Inr (?N, [(TFloat 0, TFloat 0x3FF0000000000000, TStr [110, 109])],
               (TFloat 0, TFloat 0x4008000000000000, TStr [101]), TNone,
               [(''imported_properties'', TDict [])])"
    by (auto simp: calibration_tuple_def)
  from save_then_load [where d = "[''f'' \<mapsto> []]" and s = "''f''" and ic = ?ic
         and meta = TNone and lib = ?lib, OF wn sn ln d] pn
  have n: "fst (save_image ?N ?cals (Some ?ic) TNone (Stream ''f'') [''f'' \<mapsto> []]) = Inr ()
     \<and> load_image ?lib (Stream ''f'')
          (snd (save_image ?N ?cals (Some ?ic) TNone (Stream ''f'') [''f'' \<mapsto> []]))
        = Inl AttributeError"
    by auto
  have neq: "?N \<noteq> ?B" by simp
  from wb sb b neq wn n show ?thesis by blast
qed

text \<open>
  C1, amended. An array of a supported element type (complex64 and complex128 among
  them) and of any rank is saved to an empty stream with one calibration for each axis
  and an intensity calibration, and loaded again, from the stream or from its path. What
  \<^verbatim>\<open>load_image\<close> does is decided by the metadata: it fails where \<^verbatim>\<open>fix_strings\<close> or lines
  173 to 180 fail on them, and otherwise returns an array of the same element type and
  shape in the byte order of the platform, the calibrations in the order of the axes and
  the intensity calibration, each as its (origin, scale, units) triple. For an array in
  the byte order of the platform and metadata that \<^verbatim>\<open>load_image\<close> can read, the array that
  is returned is the array that was saved: the same shape, element type and buffer.
\<close>

theorem round_trip:
  assumes "wf_ndarray A" and "dtype A \<in> supported_dtypes"
    and "length cals = length (shape A)" and "d s = Some []"
  shows "\<exists>ret. save_image A cals (Some ic) meta (Stream s) d = (Inr (), d(s \<mapsto> [ret]))
     \<and> load_image lib (Path s) (d(s \<mapsto> [ret])) = load_image lib (Stream s) (d(s \<mapsto> [ret]))
     \<and> load_image lib (Stream s) (d(s \<mapsto> [ret])) =
         ebind (fix_strings meta) (\<lambda>meta'.
         ebind (load_properties lib (TDict [(''ImageTags'', meta')])) (\<lambda>props.
         Inr (\<lparr>dtype = dtype A, byteorder = NativeOrder, shape = shape A,
                buf = (if dtype A = Complex64 \<or> dtype A = Complex128 then buf A
                       else native_items A)\<rparr>,
              map calibration_tuple cals, calibration_tuple ic, TNone, props)))
     \<and> (byteorder A = NativeOrder \<longrightarrow>
          (\<forall>meta' props. fix_strings meta = Inr meta'
               \<and> load_properties lib (TDict [(''ImageTags'', meta')]) = Inr props
             \<longrightarrow> load_image lib (Stream s) (d(s \<mapsto> [ret]))
                   = Inr (A, map calibration_tuple cals, calibration_tuple ic, TNone, props)))"
proof -
  from save_then_load [where d = d and s = s and ic = ic and meta = meta and lib = lib,
         OF assms]
  obtain ret
    where sv: "save_image A cals (Some ic) meta (Stream s) d = (Inr (), d(s \<mapsto> [ret]))"
      and pa: "load_image lib (Path s) (d(s \<mapsto> [ret])) = load_image lib (Stream s) (d(s \<mapsto> [ret]))"
      and ld: "load_image lib (Stream s) (d(s \<mapsto> [ret])) =
         ebind (fix_strings meta) (\<lambda>meta'.
         ebind (load_properties lib (TDict [(''ImageTags'', meta')])) (\<lambda>props.
         Inr (\<lparr>dtype = dtype A, byteorder = NativeOrder, shape = shape A,
                buf = (if dtype A = Complex64 \<or> dtype A = Complex128 then buf A
                       else native_items A)\<rparr>,
              map calibration_tuple cals, calibration_tuple ic, TNone, props)))"
    by blast
  have eq: "load_image lib (Stream s) (d(s \<mapsto> [ret]))
                   = Inr (A, map calibration_tuple cals, calibration_tuple ic, TNone, props)"
    if n: "byteorder A = NativeOrder" and m: "fix_strings meta = Inr meta'"
      and p: "load_properties lib (TDict [(''ImageTags'', meta')]) = Inr props"
    for meta' props
  proof -
    from n have "\<lparr>dtype = dtype A, byteorder = NativeOrder, shape = shape A,
                buf = (if dtype A = Complex64 \<or> dtype A = Complex128 then buf A
                       else native_items A)\<rparr> = A"
      by (simp add: native_items_native)
    with ld m p show ?thesis by simp
  qed
  from sv pa ld eq show ?thesis by blast
qed

text \<open>
  The witness: a 1 by 2 complex64 array with two calibrations in nm, metadata with a text
  stored as a UTF-16 array and a voltage of 10000.0.
\<close>

theorem round_trip_witness:
  "wf_ndarray \<lparr>dtype = Complex64, byteorder = NativeOrder, shape = [1, 2],
       buf = [0, 0, 128, 63, 0, 0, 0, 0, 0, 0, 192, 127, 0, 0, 0, 128]\<rparr>
   \<and> dtype \<lparr>dtype = Complex64, byteorder = NativeOrder, shape = [1, 2],
       buf = [0, 0, 128, 63, 0, 0, 0, 0, 0, 0, 192, 127, 0, 0, 0, 128]\<rparr> \<in> supported_dtypes
   \<and> fix_strings (TDict [(''Note'', TArray Tc_H [110, 0, 109, 0]),
                          (''ImageScanned'', TDict [(''EHT'', TFloat 0x40C3880000000000)])])
       = Inr (TDict [(''Note'', TStr [110, 109]),
                     (''ImageScanned'', TDict [(''EHT'', TFloat 0x40C3880000000000)])])
   \<and> (\<exists>ret. save_image
          \<lparr>dtype = Complex64, byteorder = NativeOrder, shape = [1, 2],
            buf = [0, 0, 128, 63, 0, 0, 0, 0, 0, 0, 192, 127, 0, 0, 0, 128]\<rparr>
          [\<lparr>offset = 0, scale = 0x3FF0000000000000, units = [110, 109]\<rparr>,
           \<lparr>offset = 0x4000000000000000, scale = 0x3FE0000000000000, units = [110, 109]\<rparr>]
          (Some \<lparr>offset = 0, scale = 0x4008000000000000, units = [101]\<rparr>)
          (TDict [(''Note'', TArray Tc_H [110, 0, 109, 0]),
                  (''ImageScanned'', TDict [(''EHT'', TFloat 0x40C3880000000000)])])
          (Stream ''f'') [''f'' \<mapsto> []]
        = (Inr (), [''f'' \<mapsto> [ret]])
      \<and> load_image
          \<lparr>float_of_int = (\<lambda>n. Inl ValueError), float_of_str = (\<lambda>s. Inl ValueError)\<rparr>
          (Stream ''f'') [''f'' \<mapsto> [ret]]
        = Inr (\<lparr>dtype = Complex64, byteorder = NativeOrder, shape = [1, 2],
                 buf = [0, 0, 128, 63, 0, 0, 0, 0, 0, 0, 192, 127, 0, 0, 0, 128]\<rparr>,
               [(TFloat 0, TFloat 0x3FF0000000000000, TStr [110, 109]),
                (TFloat 0x4000000000000000, TFloat 0x3FE0000000000000, TStr [110, 109])],
               (TFloat 0, TFloat 0x4008000000000000, TStr [101]),
               TNone,
               [(''imported_properties'',
                   TDict [(''Note'', TStr [110, 109]),
                          (''ImageScanned'', TDict [(''EHT'', TFloat 0x40C3880000000000)])]),
                (''autostem'', TDict [(''high_tension_v'', TFloat 0x40C3880000000000)]),
                (''extra_high_tension'', TFloat 0x40C3880000000000)]))"
proof -
  let ?A = "\<lparr>dtype = Complex64, byteorder = NativeOrder, shape = [1, 2],
       buf = [0, 0, 128, 63, 0, 0, 0, 0, 0, 0, 192, 127, 0, 0, 0, 128 :: byte]\<rparr>"
  let ?meta = "TDict [(''Note'', TArray Tc_H [110, 0, 109, 0]),
                      (''ImageScanned'', TDict [(''EHT'', TFloat 0x40C3880000000000)])]"
  let ?meta' = "TDict [(''Note'', TStr [110, 109]),
                       (''ImageScanned'', TDict [(''EHT'', TFloat 0x40C3880000000000)])]"
  let ?lib = "\<lparr>float_of_int = (\<lambda>n. Inl ValueError), float_of_str = (\<lambda>s. Inl ValueError)\<rparr>"
  let ?cals = "[\<lparr>offset = 0, scale = 0x3FF0000000000000, units = [110, 109]\<rparr>,
           \<lparr>offset = 0x4000000000000000, scale = 0x3FE0000000000000, units = [110, 109]\<rparr>]"
  have w: "wf_ndarray ?A" by (simp add: wf_ndarray_def)
  have s: "dtype ?A \<in> supported_dtypes" by (simp add: supported_dtypes_def dm_image_dtypes_def)
  have l: "length ?cals = length (shape ?A)" by simp
  have n: "byteorder ?A = NativeOrder" by simp
  have m: "fix_strings ?meta = Inr ?meta'" by (simp add: utf16_decode_def)
  have p: "load_properties ?lib (TDict [(''ImageTags'', ?meta')])
     = Inr [(''imported_properties'', ?meta'),
            (''autostem'', TDict [(''high_tension_v'', TFloat 0x40C3880000000000)]),
            (''extra_high_tension'', TFloat 0x40C3880000000000)]"
    by (simp add: load_properties_def)
  have d: "[''f'' \<mapsto> []] ''f'' = Some ([] :: tag list)" by simp
  from round_trip [where d = "[''f'' \<mapsto> []]" and s = "''f''" and meta = ?meta and lib = ?lib
         and ic = "\<lparr>offset = 0, scale = 0x4008000000000000, units = [101]\<rparr>",
         OF w s l d] n m p
  obtain ret where
    sv: "save_image ?A ?cals (Some \<lparr>offset = 0, scale = 0x4008000000000000, units = [101]\<rparr>)
           ?meta (Stream ''f'') [''f'' \<mapsto> []] = (Inr (), [''f'' \<mapsto> [ret]])"
    and ld: "load_image ?lib (Stream ''f'') [''f'' \<mapsto> [ret]]
      = Inr (?A, map calibration_tuple ?cals,
             calibration_tuple \<lparr>offset = 0, scale = 0x4008000000000000, units = [101]\<rparr>,
             TNone,
             [(''imported_properties'', ?meta'),
              (''autostem'', TDict [(''high_tension_v'', TFloat 0x40C3880000000000)]),
              (''extra_high_tension'', TFloat 0x40C3880000000000)])"
    by auto
  from w s m sv ld show ?thesis by (auto simp: calibration_tuple_def)
qed

section \<open>What fix_strings keeps and changes\<close>

lemma fix_strings_items_map_of:
  assumes "fix_strings_items kvs = Inr kvs'" and "k \<noteq> ''Data''" and "map_of kvs k = Some v"
  shows "\<exists>v'. fix_strings v = Inr v' \<and> map_of kvs' k = Some v'"
  using assms
proof (induction kvs arbitrary: kvs')
  case Nil
  then show ?case by simp
next
  case (Cons kv kvs)
  obtain k0 v0 where kv: "kv = (k0, v0)" by (cases kv) auto
  from Cons.prems(1) kv obtain v0' r where r: "fix_strings_items kvs = Inr r"
    and v0': "k0 \<noteq> ''Data'' \<longrightarrow> fix_strings v0 = Inr v0'"
    and kvs': "kvs' = (k0, if k0 \<noteq> ''Data'' then v0' else v0) # r"
    by (auto simp: ebind_eq_Inr_iff split: if_splits)
  show ?case
  proof (cases "k0 = k")
    case True
    with Cons.prems kv v0' kvs' show ?thesis by auto
  next
    case False
    with Cons.prems kv have "map_of kvs k = Some v" by simp
    from Cons.IH [OF r Cons.prems(2) this] False kvs' show ?thesis by auto
  qed
qed

lemma fix_strings_items_Data:
  assumes "fix_strings_items kvs = Inr kvs'"
  shows "map_of kvs' ''Data'' = map_of kvs ''Data''"
  using assms
proof (induction kvs arbitrary: kvs')
  case Nil
  then show ?case by simp
next
  case (Cons kv kvs)
  obtain k0 v0 where kv: "kv = (k0, v0)" by (cases kv) auto
  from Cons.prems kv obtain v0' r where r: "fix_strings_items kvs = Inr r"
    and kvs': "kvs' = (k0, if k0 \<noteq> ''Data'' then v0' else v0) # r"
    by (auto simp: ebind_eq_Inr_iff split: if_splits)
  from Cons.IH [OF r] kv kvs' show ?case by auto
qed

lemma fix_strings_list_nth:
  assumes "fix_strings_list xs = Inr xs'"
  shows "length xs' = length xs \<and> (\<forall>i < length xs. fix_strings (xs ! i) = Inr (xs' ! i))"
  using assms
proof (induction xs arbitrary: xs')
  case Nil
  then show ?case by simp
next
  case (Cons x xs)
  from Cons.prems obtain x' r where x': "fix_strings x = Inr x'"
    and r: "fix_strings_list xs = Inr r" and xs': "xs' = x' # r"
    by (auto simp: ebind_eq_Inr_iff)
  from Cons.IH [OF r] x' xs' show ?case
    by (auto simp: nth_Cons split: nat.splits)
qed

lemma fix_strings_list_last:
  assumes "fix_strings_list xs = Inr xs'" and "xs \<noteq> []"
  shows "xs' \<noteq> [] \<and> fix_strings (last xs) = Inr (last xs')"
proof -
  from fix_strings_list_nth [OF assms(1)]
  have l: "length xs' = length xs"
    and n: "\<forall>i < length xs. fix_strings (xs ! i) = Inr (xs' ! i)" by simp_all
  from l assms(2) have ne: "xs' \<noteq> []" by auto
  from assms(2) have "length xs - 1 < length xs" by (cases xs) simp_all
  with n have "fix_strings (xs ! (length xs - 1)) = Inr (xs' ! (length xs - 1))" by blast
  with l ne assms(2) show ?thesis by (simp add: last_conv_nth)
qed

lemma fix_strings_dict_Inr:
  "fix_strings (TDict kvs) = Inr t \<longleftrightarrow> (\<exists>kvs'. fix_strings_items kvs = Inr kvs' \<and> t = TDict kvs')"
  by (auto simp: ebind_eq_Inr_iff)

lemma fix_strings_list_Inr:
  "fix_strings (TList xs) = Inr t \<longleftrightarrow> (\<exists>xs'. fix_strings_list xs = Inr xs' \<and> t = TList xs')"
  by (auto simp: ebind_eq_Inr_iff)

section \<open>The entry that load_image reads\<close>

text \<open>
  C4. Let the document have a non-empty \<open>ImageList\<close>. If \<^verbatim>\<open>fix_strings\<close> fails on the
  document, \<^verbatim>\<open>load_image\<close> fails with that error. Otherwise its result (array,
  calibrations, intensity, title and properties, or an error) is what lines 165 to 181
  compute from the normalised last entry alone; it is the result for the document that
  holds nothing but the last entry. With two entries, thumbnail and full image, that
  entry is the second.
\<close>

theorem last_image_selected:
  assumes "map_of kvs ''ImageList'' = Some (TList entries)" and "entries \<noteq> []"
  shows "(\<forall>e. fix_strings (TDict kvs) = Inl e \<longrightarrow> load_image_dmtag lib (TDict kvs) = Inl e)
     \<and> (\<forall>t. fix_strings (TDict kvs) = Inr t \<longrightarrow>
           load_image_dmtag lib (TDict kvs)
             = ebind (fix_strings (last entries)) (load_image_tags lib)
         \<and> load_image_dmtag lib (TDict kvs)
             = load_image_dmtag lib (TDict [(''ImageList'', TList [last entries])]))"
proof (intro conjI allI impI)
  fix e
  assume "fix_strings (TDict kvs) = Inl e"
  then show "load_image_dmtag lib (TDict kvs) = Inl e"
    by (simp add: load_image_dmtag_def)
next
  fix t
  assume t: "fix_strings (TDict kvs) = Inr t"
  then obtain kvs' where kvs': "fix_strings_items kvs = Inr kvs'" and tk: "t = TDict kvs'"
    by (auto simp: ebind_eq_Inr_iff)
  from fix_strings_items_map_of [OF kvs' _ assms(1)] obtain il
    where il: "fix_strings (TList entries) = Inr il" and g: "map_of kvs' ''ImageList'' = Some il"
    by auto
  from il obtain es where es: "fix_strings_list entries = Inr es" and ile: "il = TList es"
    by (auto simp: ebind_eq_Inr_iff)
  from fix_strings_list_last [OF es assms(2)]
  have ne: "es \<noteq> []" and la: "fix_strings (last entries) = Inr (last es)" by simp_all
  from t tk g ile ne
  have lhs: "load_image_dmtag lib (TDict kvs) = load_image_tags lib (last es)"
    by (simp add: load_image_dmtag_def)
  with la show "load_image_dmtag lib (TDict kvs)
      = ebind (fix_strings (last entries)) (load_image_tags lib)"
    by simp
  from la have "load_image_dmtag lib (TDict [(''ImageList'', TList [last entries])])
      = load_image_tags lib (last es)"
    by (simp add: load_image_dmtag_def)
  with lhs show "load_image_dmtag lib (TDict kvs)
      = load_image_dmtag lib (TDict [(''ImageList'', TList [last entries])])"
    by simp
qed

text \<open>
  The witness: a thumbnail of one int8 followed by an image of two int16 whose name is
  stored as UTF-16.
\<close>

theorem last_image_selected_witness:
  "load_image_dmtag
      \<lparr>float_of_int = (\<lambda>n. Inl ValueError), float_of_str = (\<lambda>s. Inl ValueError)\<rparr>
      (TDict [(''ImageList'', TList
         [TDict [(''ImageData'', TDict [(''Data'', TArray Tc_b [9]), (''DataType'', TInt 9),
                    (''PixelDepth'', TInt 1), (''Dimensions'', TList [TInt 1])])],
          TDict [(''ImageData'', TDict [(''Data'', TArray Tc_h [1, 0, 2, 0]),
                    (''DataType'', TInt 1), (''PixelDepth'', TInt 2),
                    (''Dimensions'', TList [TInt 2])]),
                 (''Name'', TArray Tc_H [105, 0, 109, 0])]]),
              (''InImageMode'', TInt 1)])
    = Inr (\<lparr>dtype = Int16, byteorder = NativeOrder, shape = [2], buf = [1, 0, 2, 0]\<rparr>, [],
           (TFloat 0, TFloat 0x3FF0000000000000, TStr []), TStr [105, 109], [])
   \<and> load_image_dmtag
      \<lparr>float_of_int = (\<lambda>n. Inl ValueError), float_of_str = (\<lambda>s. Inl ValueError)\<rparr>
      (TDict [(''ImageList'', TList
         [TDict [(''ImageData'', TDict [(''Data'', TArray Tc_b [9]), (''DataType'', TInt 9),
                    (''PixelDepth'', TInt 1), (''Dimensions'', TList [TInt 1])])],
          TDict [(''ImageData'', TDict [(''Data'', TArray Tc_h [1, 0, 2, 0]),
                    (''DataType'', TInt 1), (''PixelDepth'', TInt 2),
                    (''Dimensions'', TList [TInt 2])]),
                 (''Name'', TArray Tc_H [105, 0, 109, 0])]]),
              (''InImageMode'', TInt 1)])
    = load_image_dmtag
      \<lparr>float_of_int = (\<lambda>n. Inl ValueError), float_of_str = (\<lambda>s. Inl ValueError)\<rparr>
      (TDict [(''ImageList'', TList
         [TDict [(''ImageData'', TDict [(''Data'', TArray Tc_h [1, 0, 2, 0]),
                    (''DataType'', TInt 1), (''PixelDepth'', TInt 2),
                    (''Dimensions'', TList [TInt 2])]),
                 (''Name'', TArray Tc_H [105, 0, 109, 0])]])])"
proof -
  let ?lib = "\<lparr>float_of_int = (\<lambda>n. Inl ValueError), float_of_str = (\<lambda>s. Inl ValueError)\<rparr>"
  let ?thumb = "TDict [(''ImageData'', TDict [(''Data'', TArray Tc_b [9]), (''DataType'', TInt 9),
                    (''PixelDepth'', TInt 1), (''Dimensions'', TList [TInt 1])])]"
  let ?full = "TDict [(''ImageData'', TDict [(''Data'', TArray Tc_h [1, 0, 2, 0]),
                    (''DataType'', TInt 1), (''PixelDepth'', TInt 2),
                    (''Dimensions'', TList [TInt 2])]),
                 (''Name'', TArray Tc_H [105, 0, 109, 0])]"
  let ?kvs = "[(''ImageList'', TList [?thumb, ?full]), (''InImageMode'', TInt 1)]"
  have h1: "map_of ?kvs ''ImageList'' = Some (TList [?thumb, ?full])" by simp
  have h2: "[?thumb, ?full] \<noteq> []" by simp
  have fx: "fix_strings (TDict ?kvs) = Inr (TDict
      [(''ImageList'', TList [?thumb,
          TDict [(''ImageData'', TDict [(''Data'', TArray Tc_h [1, 0, 2, 0]),
                    (''DataType'', TInt 1), (''PixelDepth'', TInt 2),
                    (''Dimensions'', TList [TInt 2])]),
                 (''Name'', TStr [105, 109])]]),
       (''InImageMode'', TInt 1)])"
    by (simp add: utf16_decode_def)
  have im: "imagedatadict_to_ndarray (TDict [(''Data'', TArray Tc_h [1, 0, 2, 0]),
                    (''DataType'', TInt 1), (''PixelDepth'', TInt 2),
                    (''Dimensions'', TList [TInt 2])])
      = Inr \<lparr>dtype = Int16, byteorder = NativeOrder, shape = [2], buf = [1, 0, 2, 0]\<rparr>"
    by (simp add: imagedatadict_to_ndarray_def data_to_im_def np_asarray_def
          dm_image_dtypes_getitem_def dm_image_dtypes_def np_reshape_def)
  have r: "ebind (fix_strings (last [?thumb, ?full])) (load_image_tags ?lib)
      = Inr (\<lparr>dtype = Int16, byteorder = NativeOrder, shape = [2], buf = [1, 0, 2, 0]\<rparr>, [],
           (TFloat 0, TFloat 0x3FF0000000000000, TStr []), TStr [105, 109], [])"
    by (simp add: utf16_decode_def load_image_tags_def im load_properties_def)
  from last_image_selected [OF h1 h2, of ?lib] fx
  have e1: "load_image_dmtag ?lib (TDict ?kvs)
      = ebind (fix_strings (last [?thumb, ?full])) (load_image_tags ?lib)"
    and e2: "load_image_dmtag ?lib (TDict ?kvs)
      = load_image_dmtag ?lib (TDict [(''ImageList'', TList [last [?thumb, ?full]])])"
    by blast+
  have la: "last [?thumb, ?full] = ?full" by simp
  from e1 r have c1: "load_image_dmtag ?lib (TDict ?kvs)
      = Inr (\<lparr>dtype = Int16, byteorder = NativeOrder, shape = [2], buf = [1, 0, 2, 0]\<rparr>, [],
           (TFloat 0, TFloat 0x3FF0000000000000, TStr []), TStr [105, 109], [])"
    by (simp only:)
  from e2 la have c2: "load_image_dmtag ?lib (TDict ?kvs)
      = load_image_dmtag ?lib (TDict [(''ImageList'', TList [?full])])"
    by (simp only:)
  from c1 c2 show ?thesis by (rule conjI)
qed

lemma utf16_decode_Inl: "utf16_decode bs = Inl e \<Longrightarrow> e = UnicodeDecodeError"
  by (auto simp: utf16_decode_def Let_def split: option.splits if_splits)

lemma fix_strings_Inl:
  "fix_strings t = Inl e \<longrightarrow> e = UnicodeDecodeError"
  "fix_strings_items kvs = Inl e \<longrightarrow> e = UnicodeDecodeError"
  "fix_strings_list xs = Inl e \<longrightarrow> e = UnicodeDecodeError"
  by (induction t and kvs and xs rule: fix_strings_fix_strings_items_fix_strings_list.induct)
     (auto simp: ebind_eq_Inl_iff dest: utf16_decode_Inl)

lemma lookup_path_append:
  "lookup_path t (p @ q) = (case lookup_path t p of None \<Rightarrow> None | Some u \<Rightarrow> lookup_path u q)"
proof (induction p arbitrary: t)
  case Nil
  show ?case by simp
next
  case (Cons st p)
  show ?case
    by (cases st; cases t) (simp_all add: Cons.IH split: option.splits)
qed

text \<open>
  Along a path that passes no key \<open>Data\<close>, the node of the result is the image of the node
  of the argument.
\<close>

lemma fix_strings_lookup:
  assumes "fix_strings t = Inr t'" and "Key ''Data'' \<notin> set p" and "lookup_path t p = Some v"
  shows "\<exists>v'. fix_strings v = Inr v' \<and> lookup_path t' p = Some v'"
  using assms
proof (induction p arbitrary: t t')
  case Nil
  then show ?case by simp
next
  case (Cons st p)
  show ?case
  proof (cases st)
    case (Key k)
    with Cons.prems(3) obtain kvs u where t: "t = TDict kvs"
      and u: "map_of kvs k = Some u" and l: "lookup_path u p = Some v"
      by (cases t) (auto split: option.splits)
    from Cons.prems(1) t obtain kvs' where kvs': "fix_strings_items kvs = Inr kvs'"
      and t': "t' = TDict kvs'"
      by (auto simp: ebind_eq_Inr_iff)
    from Cons.prems(2) Key have k: "k \<noteq> ''Data''" and p: "Key ''Data'' \<notin> set p" by auto
    from fix_strings_items_map_of [OF kvs' k u] obtain u'
      where u': "fix_strings u = Inr u'" and g: "map_of kvs' k = Some u'" by blast
    from Cons.IH [OF u' p l] Key t' g show ?thesis by simp
  next
    case (Index i)
    with Cons.prems(3) obtain xs where t: "t = TList xs" and i: "i < length xs"
      and l: "lookup_path (xs ! i) p = Some v"
      by (cases t) (auto split: if_splits)
    from Cons.prems(1) t obtain xs' where xs': "fix_strings_list xs = Inr xs'"
      and t': "t' = TList xs'"
      by (auto simp: ebind_eq_Inr_iff)
    from fix_strings_list_nth [OF xs'] i
    have len: "length xs' = length xs" and n: "fix_strings (xs ! i) = Inr (xs' ! i)"
      by simp_all
    from Cons.prems(2) have p: "Key ''Data'' \<notin> set p" by simp
    from Cons.IH [OF n p l] Index t' len i show ?thesis by simp
  qed
qed

text \<open>
  C9. \<^verbatim>\<open>fix_strings\<close> can only fail in the UTF-16 decoding. When it returns a tree, then at
  the end of every path that passes no key \<open>Data\<close>: an \<^verbatim>\<open>array.array\<close> of the argument has
  become the text that its buffer decodes to; the value under a key \<open>Data\<close> is the value
  of the argument, whatever it holds; and every other leaf (\<open>None\<close>, bool, int, float, text,
  structarray) is unchanged.
\<close>

theorem fix_strings_normalises:
  "(fix_strings t = Inl e \<longrightarrow> e = UnicodeDecodeError)
   \<and> (fix_strings t = Inr t' \<and> Key ''Data'' \<notin> set p \<longrightarrow>
        (\<forall>tc bs. lookup_path t p = Some (TArray tc bs) \<longrightarrow>
            (\<exists>s. utf16_decode bs = Inr s \<and> lookup_path t' p = Some (TStr s)))
      \<and> (\<forall>v. lookup_path t (p @ [Key ''Data'']) = Some v \<longrightarrow>
            lookup_path t' (p @ [Key ''Data'']) = Some v)
      \<and> (\<forall>v. lookup_path t p = Some v \<and> is_scalar v \<longrightarrow> lookup_path t' p = Some v))"
proof (intro conjI impI allI)
  show "e = UnicodeDecodeError" if "fix_strings t = Inl e"
    using that fix_strings_Inl(1) by blast
next
  fix tc bs
  assume a: "fix_strings t = Inr t' \<and> Key ''Data'' \<notin> set p"
    and l: "lookup_path t p = Some (TArray tc bs)"
  from a l fix_strings_lookup [of t t' p "TArray tc bs"] obtain v'
    where "fix_strings (TArray tc bs) = Inr v'" and "lookup_path t' p = Some v'" by blast
  then show "\<exists>s. utf16_decode bs = Inr s \<and> lookup_path t' p = Some (TStr s)"
    by (auto simp: ebind_eq_Inr_iff)
next
  fix v
  assume a: "fix_strings t = Inr t' \<and> Key ''Data'' \<notin> set p"
    and l: "lookup_path t (p @ [Key ''Data'']) = Some v"
  from l obtain u where u: "lookup_path t p = Some u" and d: "lookup_path u [Key ''Data''] = Some v"
    by (auto simp: lookup_path_append split: option.splits)
  from a u fix_strings_lookup [of t t' p u] obtain u'
    where u': "fix_strings u = Inr u'" and l': "lookup_path t' p = Some u'" by blast
  from d obtain kvs where uk: "u = TDict kvs" and g: "map_of kvs ''Data'' = Some v"
    by (cases u) (auto split: option.splits)
  from u' uk obtain kvs' where kvs': "fix_strings_items kvs = Inr kvs'" and uk': "u' = TDict kvs'"
    by (auto simp: ebind_eq_Inr_iff)
  from fix_strings_items_Data [OF kvs'] g have "map_of kvs' ''Data'' = Some v" by simp
  with l' uk' show "lookup_path t' (p @ [Key ''Data'']) = Some v"
    by (simp add: lookup_path_append)
next
  fix v
  assume a: "fix_strings t = Inr t' \<and> Key ''Data'' \<notin> set p"
    and l: "lookup_path t p = Some v \<and> is_scalar v"
  from a l fix_strings_lookup [of t t' p v] obtain v'
    where v': "fix_strings v = Inr v'" and l': "lookup_path t' p = Some v'" by blast
  from l v' have "v' = v" by (cases v) auto
  with l' show "lookup_path t' p = Some v" by simp
qed

text \<open>
  The witness: the same array of bytes (the text \<open>nm\<close> in UTF-16) under the keys \<open>Units\<close>,
  in a list, and \<open>Data\<close>.
\<close>

theorem fix_strings_normalises_witness:
  "fix_strings (TDict [(''Tags'', TList [TInt 5,
                          TDict [(''Units'', TArray Tc_H [110, 0, 109, 0]),
                                 (''Scale'', TFloat 0x3FF0000000000000)]]),
                       (''Data'', TArray Tc_H [110, 0, 109, 0])])
     = Inr (TDict [(''Tags'', TList [TInt 5,
                          TDict [(''Units'', TStr [110, 109]),
                                 (''Scale'', TFloat 0x3FF0000000000000)]]),
                       (''Data'', TArray Tc_H [110, 0, 109, 0])])
   \<and> utf16_decode [110, 0, 109, 0] = Inr [110, 109]
   \<and> lookup_path (TDict [(''Tags'', TList [TInt 5,
                          TDict [(''Units'', TStr [110, 109]),
                                 (''Scale'', TFloat 0x3FF0000000000000)]]),
                       (''Data'', TArray Tc_H [110, 0, 109, 0])])
        [Key ''Tags'', Index 1, Key ''Units''] = Some (TStr [110, 109])
   \<and> lookup_path (TDict [(''Tags'', TList [TInt 5,
                          TDict [(''Units'', TStr [110, 109]),
                                 (''Scale'', TFloat 0x3FF0000000000000)]]),
                       (''Data'', TArray Tc_H [110, 0, 109, 0])])
        ([] @ [Key ''Data'']) = Some (TArray Tc_H [110, 0, 109, 0])"
proof -
  let ?t = "TDict [(''Tags'', TList [TInt 5,
                          TDict [(''Units'', TArray Tc_H [110, 0, 109, 0]),
                                 (''Scale'', TFloat 0x3FF0000000000000)]]),
                       (''Data'', TArray Tc_H [110, 0, 109, 0])]"
  let ?t' = "TDict [(''Tags'', TList [TInt 5,
                          TDict [(''Units'', TStr [110, 109]),
                                 (''Scale'', TFloat 0x3FF0000000000000)]]),
                       (''Data'', TArray Tc_H [110, 0, 109, 0])]"
  have f: "fix_strings ?t = Inr ?t'" by (simp add: utf16_decode_def)
  have u: "utf16_decode [110, 0, 109, 0] = Inr [110, 109]" by (simp add: utf16_decode_def)
  have p1: "Key ''Data'' \<notin> set [Key ''Tags'', Index 1, Key ''Units'']" by simp
  have l1: "lookup_path ?t [Key ''Tags'', Index 1, Key ''Units'']
             = Some (TArray Tc_H [110, 0, 109, 0])" by simp
  have p2: "Key ''Data'' \<notin> set []" by simp
  have l2: "lookup_path ?t ([] @ [Key ''Data'']) = Some (TArray Tc_H [110, 0, 109, 0])" by simp
  from fix_strings_normalises [of ?t UnicodeDecodeError ?t' "[Key ''Tags'', Index 1, Key ''Units'']"]
       f p1 l1 u
  have a: "lookup_path ?t' [Key ''Tags'', Index 1, Key ''Units''] = Some (TStr [110, 109])"
    by auto
  from fix_strings_normalises [of ?t UnicodeDecodeError ?t' "[]"] f p2 l2
  have b: "lookup_path ?t' ([] @ [Key ''Data'']) = Some (TArray Tc_H [110, 0, 109, 0])"
    by blast
  from f u a b show ?thesis by blast
qed

section \<open>The voltage properties\<close>

lemma voltage_present:
  assumes "get_default it ''ImageScanned'' (TDict []) = Inr scanned"
    and "get_default scanned ''EHT'' (TDict []) = Inr voltage"
    and "py_truthy voltage"
  shows "lookup_path it [Key ''ImageScanned'', Key ''EHT''] = Some voltage"
  using assms by (cases it; cases scanned) (auto split: option.splits)

lemma voltage_lookup:
  assumes "lookup_path it [Key ''ImageScanned'', Key ''EHT''] = Some voltage"
  shows "\<exists>scanned. get_default it ''ImageScanned'' (TDict []) = Inr scanned
           \<and> get_default scanned ''EHT'' (TDict []) = Inr voltage"
proof -
  from assms obtain ikv scanned where it: "it = TDict ikv"
    and s: "map_of ikv ''ImageScanned'' = Some scanned"
    and l: "lookup_path scanned [Key ''EHT''] = Some voltage"
    by (cases it) (auto split: option.splits)
  from l obtain skv where sc: "scanned = TDict skv" and v: "map_of skv ''EHT'' = Some voltage"
    by (cases scanned) (auto split: option.splits)
  from it s sc v show ?thesis by simp
qed

lemma load_image_tags_properties:
  assumes "load_image_tags lib image_tags = Inr (data, cals, inten, title, props)"
  shows "load_properties lib image_tags = Inr props"
  using assms by (auto simp: load_image_tags_def ebind_eq_Inr_iff)

text \<open>The three outcomes of lines 173 to 180 when they do not raise.\<close>

lemma load_properties_Inr:
  assumes "load_properties lib (TDict kvs) = Inr props"
  shows "(map_of kvs ''ImageTags'' = None \<and> props = [])
     \<or> (\<exists>it scanned voltage. map_of kvs ''ImageTags'' = Some it
           \<and> get_default it ''ImageScanned'' (TDict []) = Inr scanned
           \<and> get_default scanned ''EHT'' (TDict []) = Inr voltage
           \<and> \<not> py_truthy voltage \<and> props = [(''imported_properties'', it)])
     \<or> (\<exists>it scanned voltage v. map_of kvs ''ImageTags'' = Some it
           \<and> get_default it ''ImageScanned'' (TDict []) = Inr scanned
           \<and> get_default scanned ''EHT'' (TDict []) = Inr voltage
           \<and> py_truthy voltage \<and> py_float lib voltage = Inr v
           \<and> props = [(''imported_properties'', it),
                       (''autostem'', TDict [(''high_tension_v'', TFloat v)]),
                       (''extra_high_tension'', TFloat v)])"
proof (cases "map_of kvs ''ImageTags''")
  case None
  with assms show ?thesis by (simp add: load_properties_def)
next
  case (Some it)
  with assms obtain scanned voltage
    where s: "get_default it ''ImageScanned'' (TDict []) = Inr scanned"
      and v: "get_default scanned ''EHT'' (TDict []) = Inr voltage"
      and r: "(if py_truthy voltage
               then ebind (py_float lib voltage) (\<lambda>v.
                      Inr [(''imported_properties'', it),
                           (''autostem'', TDict [(''high_tension_v'', TFloat v)]),
                           (''extra_high_tension'', TFloat v)])
               else Inr [(''imported_properties'', it)]) = Inr props"
    by (auto simp: load_properties_def ebind_eq_Inr_iff)
  show ?thesis
  proof (cases "py_truthy voltage")
    case True
    with r obtain x where "py_float lib voltage = Inr x"
      and "props = [(''imported_properties'', it),
                    (''autostem'', TDict [(''high_tension_v'', TFloat x)]),
                    (''extra_high_tension'', TFloat x)]"
      by (auto simp: ebind_eq_Inr_iff)
    with Some s v True show ?thesis by blast
  next
    case False
    with r have "props = [(''imported_properties'', it)]" by simp
    with Some s v False show ?thesis by blast
  qed
qed

text \<open>
  C10. The properties that \<^verbatim>\<open>load_image\<close> returns are those of lines 173 to 180. The keys
  \<open>autostem\<close> and \<open>extra_high_tension\<close> come together, and only when the entry has
  \<open>ImageTags\<close> whose \<open>ImageScanned.EHT\<close> is present and true; they then hold
  \<^verbatim>\<open>float(voltage)\<close>. When \<open>EHT\<close> is present and false (0, 0.0, an empty string), the
  properties are \<open>imported_properties\<close> alone, which always holds the \<open>ImageTags\<close> subtree.
\<close>

theorem voltage_keys_need_truthy_eht:
  "(load_image_tags lib (TDict kvs) = Inr (data, cals, inten, title, props)
      \<longrightarrow> load_properties lib (TDict kvs) = Inr props)
   \<and> (load_properties lib (TDict kvs) = Inr props \<longrightarrow>
        (map_of props ''autostem'' \<noteq> None \<longleftrightarrow> map_of props ''extra_high_tension'' \<noteq> None)
      \<and> (\<forall>it. map_of kvs ''ImageTags'' = Some it
             \<longrightarrow> map_of props ''imported_properties'' = Some it)
      \<and> (map_of props ''autostem'' \<noteq> None \<longrightarrow>
           (\<exists>it voltage v. map_of kvs ''ImageTags'' = Some it
              \<and> lookup_path it [Key ''ImageScanned'', Key ''EHT''] = Some voltage
              \<and> py_truthy voltage \<and> py_float lib voltage = Inr v
              \<and> map_of props ''autostem'' = Some (TDict [(''high_tension_v'', TFloat v)])
              \<and> map_of props ''extra_high_tension'' = Some (TFloat v))))
   \<and> (\<forall>it voltage. map_of kvs ''ImageTags'' = Some it
          \<and> lookup_path it [Key ''ImageScanned'', Key ''EHT''] = Some voltage
          \<and> \<not> py_truthy voltage
        \<longrightarrow> load_properties lib (TDict kvs) = Inr [(''imported_properties'', it)])
   \<and> \<not> py_truthy (TInt 0) \<and> \<not> py_truthy (TFloat 0) \<and> \<not> py_truthy (TStr [])"
proof (intro conjI impI allI)
  show "load_properties lib (TDict kvs) = Inr props"
    if "load_image_tags lib (TDict kvs) = Inr (data, cals, inten, title, props)"
    using that by (rule load_image_tags_properties)
next
  assume a: "load_properties lib (TDict kvs) = Inr props"
  from load_properties_Inr [OF a]
  show "map_of props ''autostem'' \<noteq> None \<longleftrightarrow> map_of props ''extra_high_tension'' \<noteq> None"
    by auto
next
  fix it
  assume a: "load_properties lib (TDict kvs) = Inr props"
    and i: "map_of kvs ''ImageTags'' = Some it"
  from load_properties_Inr [OF a] i
  show "map_of props ''imported_properties'' = Some it" by auto
next
  assume a: "load_properties lib (TDict kvs) = Inr props"
    and k: "map_of props ''autostem'' \<noteq> None"
  from load_properties_Inr [OF a] k obtain it scanned voltage v
    where "map_of kvs ''ImageTags'' = Some it"
      and "get_default it ''ImageScanned'' (TDict []) = Inr scanned"
      and "get_default scanned ''EHT'' (TDict []) = Inr voltage"
      and "py_truthy voltage" and "py_float lib voltage = Inr v"
      and "props = [(''imported_properties'', it),
                    (''autostem'', TDict [(''high_tension_v'', TFloat v)]),
                    (''extra_high_tension'', TFloat v)]"
    by auto
  with voltage_present [of it scanned voltage]
  show "\<exists>it voltage v. map_of kvs ''ImageTags'' = Some it
              \<and> lookup_path it [Key ''ImageScanned'', Key ''EHT''] = Some voltage
              \<and> py_truthy voltage \<and> py_float lib voltage = Inr v
              \<and> map_of props ''autostem'' = Some (TDict [(''high_tension_v'', TFloat v)])
              \<and> map_of props ''extra_high_tension'' = Some (TFloat v)"
    by auto
next
  fix it voltage
  assume a: "map_of kvs ''ImageTags'' = Some it
          \<and> lookup_path it [Key ''ImageScanned'', Key ''EHT''] = Some voltage
          \<and> \<not> py_truthy voltage"
  then obtain scanned where "get_default it ''ImageScanned'' (TDict []) = Inr scanned"
    and "get_default scanned ''EHT'' (TDict []) = Inr voltage"
    using voltage_lookup [of it voltage] by blast
  with a show "load_properties lib (TDict kvs) = Inr [(''imported_properties'', it)]"
    by (simp add: load_properties_def)
qed simp_all

text \<open>
  The witness: an image whose \<open>ImageTags\<close> hold \<open>ImageScanned.EHT = 0\<close>; \<^verbatim>\<open>load_image\<close>
  returns \<open>imported_properties\<close> alone.
\<close>

theorem voltage_keys_need_truthy_eht_witness:
  "load_image_tags
      \<lparr>float_of_int = (\<lambda>n. Inr 0), float_of_str = (\<lambda>s. Inl ValueError)\<rparr>
      (TDict [(''ImageData'', TDict [(''Data'', TArray Tc_b [9]), (''DataType'', TInt 6),
                 (''PixelDepth'', TInt 1), (''Dimensions'', TList [TInt 1])]),
              (''ImageTags'', TDict [(''ImageScanned'', TDict [(''EHT'', TInt 0)])])])
     = Inr (\<lparr>dtype = Int8, byteorder = NativeOrder, shape = [1], buf = [9]\<rparr>, [],
            (TFloat 0, TFloat 0x3FF0000000000000, TStr []), TNone,
            [(''imported_properties'', TDict [(''ImageScanned'', TDict [(''EHT'', TInt 0)])])])
   \<and> lookup_path (TDict [(''ImageScanned'', TDict [(''EHT'', TInt 0)])])
        [Key ''ImageScanned'', Key ''EHT''] = Some (TInt 0)
   \<and> map_of [(''imported_properties'', TDict [(''ImageScanned'', TDict [(''EHT'', TInt 0)])])]
        ''autostem'' = None
   \<and> map_of [(''imported_properties'', TDict [(''ImageScanned'', TDict [(''EHT'', TInt 0)])])]
        ''extra_high_tension'' = None"
proof -
  let ?lib = "\<lparr>float_of_int = (\<lambda>n. Inr 0), float_of_str = (\<lambda>s. Inl ValueError)\<rparr>"
  let ?it = "TDict [(''ImageScanned'', TDict [(''EHT'', TInt 0)])]"
  let ?imd = "TDict [(''Data'', TArray Tc_b [9]), (''DataType'', TInt 6),
                 (''PixelDepth'', TInt 1), (''Dimensions'', TList [TInt 1])]"
  let ?kvs = "[(''ImageData'', ?imd), (''ImageTags'', ?it)]"
  have h: "map_of ?kvs ''ImageTags'' = Some ?it
          \<and> lookup_path ?it [Key ''ImageScanned'', Key ''EHT''] = Some (TInt 0)
          \<and> \<not> py_truthy (TInt 0)"
    by simp
  from voltage_keys_need_truthy_eht [of ?lib ?kvs] h
  have p: "load_properties ?lib (TDict ?kvs) = Inr [(''imported_properties'', ?it)]"
    by blast
  have im: "imagedatadict_to_ndarray ?imd = Inr \<lparr>dtype = Int8, byteorder = NativeOrder, shape = [1], buf = [9]\<rparr>"
    by (simp add: imagedatadict_to_ndarray_def data_to_im_def np_asarray_def
          dm_image_dtypes_getitem_def dm_image_dtypes_def np_reshape_def)
  have l: "load_image_tags ?lib (TDict ?kvs)
     = Inr (\<lparr>dtype = Int8, byteorder = NativeOrder, shape = [1], buf = [9]\<rparr>, [],
            (TFloat 0, TFloat 0x3FF0000000000000, TStr []), TNone,
            [(''imported_properties'', ?it)])"
    by (simp add: load_image_tags_def im p)
  from l h show ?thesis by simp
qed


end
